theory Spec2Isabelle
  imports Main
begin


section \<open>Python string and path primitives\<close>

text \<open>
  Paths and file names are Python \<open>str\<close> values, modelled as \<open>string\<close> (ASCII paths).
  The functions below follow \<open>str.startswith\<close>, \<open>str.endswith\<close>, the substring test
  \<open>a in b\<close>, \<open>str.replace\<close>, \<open>str.strip\<close> and the POSIX versions of
  \<open>os.path.basename\<close>, \<open>os.path.dirname\<close>, \<open>os.path.splitext\<close>.
\<close>

definition startswith :: "string \<Rightarrow> string \<Rightarrow> bool" where
  "startswith s pre = (take (length pre) s = pre)"

definition endswith :: "string \<Rightarrow> string \<Rightarrow> bool" where
  "endswith s suf = (drop (length s - length suf) s = suf)"

text \<open>\<open>py_in sub s\<close> is Python's \<open>sub in s\<close> on strings.\<close>

fun py_in :: "string \<Rightarrow> string \<Rightarrow> bool" where
  "py_in sub [] = (sub = [])"
| "py_in sub (c # cs) = (startswith (c # cs) sub \<or> py_in sub cs)"

text \<open>\<open>any(keyword in s for keyword in keywords)\<close>.\<close>

definition any_keyword_in :: "string list \<Rightarrow> string \<Rightarrow> bool" where
  "any_keyword_in keywords s = list_ex (\<lambda>keyword. py_in keyword s) keywords"

text \<open>\<open>s.replace(old, new)\<close>: non-overlapping occurrences, left to right.\<close>

function py_replace :: "string \<Rightarrow> string \<Rightarrow> string \<Rightarrow> string" where
  "py_replace old new [] = (if old = [] then new else [])"
| "py_replace old new (c # cs) =
     (if old = [] then new @ c # py_replace old new cs
      else if startswith (c # cs) old
           then new @ py_replace old new (drop (length old) (c # cs))
           else c # py_replace old new cs)"
  by pat_completeness auto
termination
  by (relation "measure (\<lambda>(old, new, s). length s)") auto

text \<open>The ASCII characters for which \<open>str.isspace\<close> holds: 9..13, 28..31 and 32.\<close>

definition is_space :: "char \<Rightarrow> bool" where
  "is_space c = (let n = (of_char c :: nat) in (9 \<le> n \<and> n \<le> 13) \<or> (28 \<le> n \<and> n \<le> 32))"

definition py_strip :: "string \<Rightarrow> string" where
  "py_strip s = rev (dropWhile is_space (rev (dropWhile is_space s)))"

definition os_path_basename :: "string \<Rightarrow> string" where
  "os_path_basename p = rev (takeWhile (\<lambda>c. c \<noteq> CHR ''/'') (rev p))"

definition os_path_dirname :: "string \<Rightarrow> string" where
  "os_path_dirname p =
     (let head = rev (dropWhile (\<lambda>c. c \<noteq> CHR ''/'') (rev p))
      in if head \<noteq> [] \<and> \<not> list_all (\<lambda>c. c = CHR ''/'') head
         then rev (dropWhile (\<lambda>c. c = CHR ''/'') (rev head))
         else head)"

text \<open>
  \<open>os.path.splitext\<close>: the extension starts at the last dot of the last path component,
  unless that component has only dots before it (\<open>.bashrc\<close> has no extension).
\<close>

definition os_path_splitext :: "string \<Rightarrow> string \<times> string" where
  "os_path_splitext p =
     (let b = os_path_basename p
      in if CHR ''.'' \<in> set b
         then (let ext = rev (takeWhile (\<lambda>c. c \<noteq> CHR ''.'') (rev b));
                   stem = rev (tl (dropWhile (\<lambda>c. c \<noteq> CHR ''.'') (rev b)))
               in if list_ex (\<lambda>c. c \<noteq> CHR ''.'') stem
                  then (take (length p - Suc (length ext)) p, CHR ''.'' # ext)
                  else (p, []))
         else (p, []))"

section \<open>File system\<close>

text \<open>
  The file system is a finite table from absolute paths to nodes. A regular file carries
  its read permission, its execute bit and its bytes; a symbolic link carries its target.
  A directory exists when it is listed as such or some entry lies below it.
\<close>

datatype node = File (readable: bool) (executable: bool) (content: string)
  | Symlink (target: string) | Dir

type_synonym fsys = "(string \<times> node) list"

definition lookup :: "fsys \<Rightarrow> string \<Rightarrow> node option" where
  "lookup fs p = map_of fs p"

text \<open>Following symbolic links, at most 40 of them as Linux does.\<close>

fun resolve :: "fsys \<Rightarrow> nat \<Rightarrow> string \<Rightarrow> node option" where
  "resolve fs 0 p = None"
| "resolve fs (Suc n) p =
     (case lookup fs p of
        None \<Rightarrow> None
      | Some (Symlink t) \<Rightarrow> resolve fs n t
      | Some f \<Rightarrow> Some f)"

text \<open>\<open>open(p, 'rb').read()\<close>: the bytes of a readable regular file, else an exception.\<close>

definition read_bytes :: "fsys \<Rightarrow> string \<Rightarrow> string option" where
  "read_bytes fs p =
     (case resolve fs 41 p of
        Some (File True x c) \<Rightarrow> Some c
      | _ \<Rightarrow> None)"

definition ELF_MAGIC :: string where
  "ELF_MAGIC = [CHR 0x7F, CHR ''E'', CHR ''L'', CHR ''F'']"

text \<open>\<open>common.is_elf_binary\<close>: any exception while reading gives \<open>False\<close>.\<close>

definition is_elf_binary :: "fsys \<Rightarrow> string \<Rightarrow> bool" where
  "is_elf_binary fs file_path =
     (case read_bytes fs file_path of
        None \<Rightarrow> False
      | Some bytes \<Rightarrow> take 4 bytes = ELF_MAGIC)"

section \<open>Module classifier (\<open>aosp_module_type.py\<close>)\<close>

datatype module_type = EXECUTABLES | JAVA_LIBRARIES | SHARED_LIBRARIES | APPS
  | STATIC_CONFIG | ETC | MISC | SKIPPED

text \<open>The Python string each label stands for.\<close>

fun label :: "module_type \<Rightarrow> string" where
  "label EXECUTABLES = ''EXECUTABLES''"
| "label JAVA_LIBRARIES = ''JAVA_LIBRARIES''"
| "label SHARED_LIBRARIES = ''SHARED_LIBRARIES''"
| "label APPS = ''APPS''"
| "label STATIC_CONFIG = ''STATIC_CONFIG''"
| "label ETC = ''ETC''"
| "label MISC = ''MISC''"
| "label SKIPPED = ''SKIPPED''"

datatype exn = TypeError | ValueError | OSError | PermissionError | Raised string

text \<open>
  The rule set \<open>POST_INJECTOR_CONFIG\<close>: one field per key the modelled code reads,
  with the type the code uses it at.
\<close>

record post_injector_config =
  SKIPPED_BINARY_LIST :: "string list"
  SKIPPED_FILE_ENDING_LIST :: "string list"
  ALLOW_ONLY_EXTENSION_LIST :: "string list"
  SKIPPED_FILE_EXTENSION_LIST_GENERAL :: "string list"
  SKIPPED_KEYWORD_LIST :: "string list"
  SKIPPED_APEX_KEYWORD_LIST :: "string list"
  SKIPPED_APP_KEYWORDLIST :: "string list"
  SKIPPED_APP_LIST :: "string list"
  ALLOWED_APP_INJECTION_KEYWORD :: "string list"
  DISABLE_BINARY_INJECTION :: bool
  ENABLE_SHARED_LIBRARIES_INJECTION_IF_NOT_EXISTS :: bool
  SKIPPED_SHARED_LIBRARIES_EVEN_IF_NOT_EXISTS_LIST :: "string list"
  SKIPPED_KEYWORD_SHARED_LIBRARIES_EVEN_IF_NOT_EXISTS_LIST :: "string list"
  ENABLE_ALLOW_APEX_INJECT_ALWAYS_KEYWORD_NOT_IN_LIST :: bool
  ALLOW_APEX_INJECT_ALWAYS_KEYWORD_NOT_IN_LIST :: "string list"
  ALLOW_APEX_INJECT_ALWAYS_KEYWORD_LIST :: "string list"
  DISALLOW_APP_INJECTION :: bool
  DISABLE_JAVA_LIBRARIES_INJECTION :: bool
  ALLOW_ALL_JAVA_LIBRARIES_INJECTION :: bool
  DISABLE_MISC_INJECTION :: bool
  ALLOW_APP_INJECT_ALWAYS :: "string list"
  ALLOW_APP_INJECT_ALWAYS_KEYWORD_LIST :: "string list"
  ALLOW_FILE_INJECT_ALWAYS :: "string list"
  ALLOW_FILE_INJECT_ALWAYS_KEYWORD_LIST :: "string list"
  ALLOW_APEX_INJECTION_MERGE :: bool
  ALLOW_APEX_MERGE_KEYWORD_LIST :: "string list"
  APEX_BINARY_ISOLATED_NAMESPACE_LIST :: "string list"
  SKIPPED_FILE_EXTENSION_LIST_INDIRECT_INJECTION :: "string list"
  INDIRECT_INJECTION_FILE_MAPPING :: "(string \<times> string) list"
  USE_ISOLATED_NAMESPACE :: bool
  ISOLATED_NAMESPACE_NATIVE_LIBRARY_LIST :: "string list"
  OVERWRITE_APP_PROCESS_32 :: bool
  DIRECT_INJECTION_TARGET_PATH_OVERWRITE :: "(string \<times> string) list"
  CHECK_VNDK_VERSION_MISMATCH :: bool
  EMULATOR_VNDK_VERSION :: nat
  REPLACE_AVB_KEYS :: bool
  APEX_DEFAULT_EMULATOR_PATHS_DICT :: "(string \<times> string) list"

definition is_file_inject_allowed :: "post_injector_config \<Rightarrow> string \<Rightarrow> bool" where
  "is_file_inject_allowed cfg file_name =
     (if file_name \<in> set (SKIPPED_BINARY_LIST cfg) then False
      else \<not> list_ex (\<lambda>file_ending. endswith file_name file_ending)
                 (SKIPPED_FILE_ENDING_LIST cfg))"

definition is_file_extension_allowed :: "post_injector_config \<Rightarrow> string \<Rightarrow> bool" where
  "is_file_extension_allowed cfg file_extension =
     (if length (ALLOW_ONLY_EXTENSION_LIST cfg) > 0
         \<and> file_extension \<notin> set (ALLOW_ONLY_EXTENSION_LIST cfg) then False
      else if file_extension \<in> set (SKIPPED_FILE_EXTENSION_LIST_GENERAL cfg) then False
      else True)"

definition is_file_path_allowed :: "post_injector_config \<Rightarrow> string \<Rightarrow> bool" where
  "is_file_path_allowed cfg file_path =
     (\<not> any_keyword_in (SKIPPED_KEYWORD_LIST cfg) file_path)"


text \<open>
  Lines 77--96 of \<open>get_module_type\<close>: the base type from extension and content, together
  with the working \<open>file_name\<close>, which the container branch rewrites. \<open>parent_dir\<close> is the
  directory of the path as given, \<open>source_file_path\<close> the stripped path.
\<close>

definition base_module_type ::
  "fsys \<Rightarrow> string \<Rightarrow> string \<Rightarrow> string \<Rightarrow> string \<Rightarrow> module_type \<times> string" where
  "base_module_type fs parent_dir source_file_path file_extension file_name =
     (if file_extension = [] \<and> (is_elf_binary fs source_file_path
            \<or> py_in ''bin'' parent_dir \<or> py_in ''xbin'' parent_dir)
      then (EXECUTABLES, file_name)
      else if file_extension = ''.jar'' then (JAVA_LIBRARIES, file_name)
      else if file_extension = ''.so'' then (SHARED_LIBRARIES, file_name)
      else if file_extension = ''.apk'' then (APPS, file_name)
      else if file_extension = ''.xml'' then (STATIC_CONFIG, file_name)
      else if py_in ''/etc/'' source_file_path then (ETC, file_name)
      else if file_extension = ''.apex'' \<or> file_extension = ''.capex''
      then (ETC, if py_in ''_compressed'' file_name then py_replace ''_compressed'' [] file_name
                 else if py_in ''_trimmed'' file_name then py_replace ''_trimmed'' [] file_name
                 else file_name)
      else (MISC, file_name))"

text \<open>
  The override rules, one definition per \<open>if\<close> statement of lines 100--166, in source
  order. Each takes the current \<open>module_type\<close> and returns the new one.
\<close>

definition skipped_app_keyword :: "post_injector_config \<Rightarrow> string \<Rightarrow> module_type \<Rightarrow> module_type" where
  "skipped_app_keyword cfg file_name m =
     (if m = APPS \<and> any_keyword_in (SKIPPED_APP_KEYWORDLIST cfg) file_name then SKIPPED else m)"

definition skipped_app_list ::
  "post_injector_config \<Rightarrow> string \<Rightarrow> string \<Rightarrow> module_type \<Rightarrow> module_type" where
  "skipped_app_list cfg file_name file_name_no_ext m =
     (if m = APPS \<and> (file_name_no_ext \<in> set (SKIPPED_APP_LIST cfg)
                      \<or> file_name \<in> set (SKIPPED_APP_LIST cfg)) then SKIPPED else m)"

definition allowed_app_keyword :: "post_injector_config \<Rightarrow> string \<Rightarrow> module_type \<Rightarrow> module_type" where
  "allowed_app_keyword cfg file_name m =
     (if m = APPS \<and> any_keyword_in (ALLOWED_APP_INJECTION_KEYWORD cfg) file_name then APPS else m)"

definition disable_binary :: "post_injector_config \<Rightarrow> module_type \<Rightarrow> module_type" where
  "disable_binary cfg m =
     (if (m = EXECUTABLES \<or> m = ETC) \<and> DISABLE_BINARY_INJECTION cfg then SKIPPED else m)"

definition general_deny ::
  "post_injector_config \<Rightarrow> string \<Rightarrow> string \<Rightarrow> string \<Rightarrow> module_type \<Rightarrow> module_type" where
  "general_deny cfg source_file_path file_extension file_name m =
     (if \<not> is_file_path_allowed cfg source_file_path
         \<or> (file_extension \<noteq> [] \<and> \<not> is_file_extension_allowed cfg file_extension)
         \<or> \<not> is_file_inject_allowed cfg file_name
      then SKIPPED else m)"

text \<open>
  Lines 116--122: the loop over \<open>pre_injector_package_list\<close>. The parameter defaults to
  \<open>None\<close>, and iterating over \<open>None\<close> raises \<open>TypeError\<close>.
\<close>

definition stripped_package_name :: "string \<Rightarrow> string" where
  "stripped_package_name package_name =
     py_strip (py_replace ''fmd'' [] (py_replace ''FMD_APEX'' [] package_name))"

definition already_injected ::
  "string list option \<Rightarrow> string \<Rightarrow> string \<Rightarrow> module_type \<Rightarrow> exn + module_type" where
  "already_injected pre_injector_package_list file_name file_name_no_ext m =
     (if m = SHARED_LIBRARIES \<or> m = ETC \<or> m = APPS
      then (case pre_injector_package_list of
              None \<Rightarrow> Inl TypeError
            | Some packages \<Rightarrow>
                if list_ex (\<lambda>package_name. file_name = stripped_package_name package_name
                              \<or> file_name_no_ext = stripped_package_name package_name) packages
                then Inr SKIPPED else Inr m)
      else Inr m)"

definition shared_library_if_not_exists ::
  "post_injector_config \<Rightarrow> string \<Rightarrow> string \<Rightarrow> module_type \<Rightarrow> module_type \<Rightarrow> module_type" where
  "shared_library_if_not_exists cfg file_extension file_name tmp_module_type m =
     (if ENABLE_SHARED_LIBRARIES_INJECTION_IF_NOT_EXISTS cfg \<and> file_extension = ''.so''
      then (if file_name \<in> set (SKIPPED_SHARED_LIBRARIES_EVEN_IF_NOT_EXISTS_LIST cfg)
               \<or> any_keyword_in (SKIPPED_KEYWORD_SHARED_LIBRARIES_EVEN_IF_NOT_EXISTS_LIST cfg) file_name
            then SKIPPED else tmp_module_type)
      else m)"

definition skipped_apex_keyword ::
  "post_injector_config \<Rightarrow> bool \<Rightarrow> string \<Rightarrow> module_type \<Rightarrow> module_type" where
  "skipped_apex_keyword cfg is_apex file_name m =
     (if is_apex \<and> any_keyword_in (SKIPPED_APEX_KEYWORD_LIST cfg) file_name then SKIPPED else m)"

definition allow_apex_not_in_list ::
  "post_injector_config \<Rightarrow> bool \<Rightarrow> string \<Rightarrow> module_type \<Rightarrow> module_type" where
  "allow_apex_not_in_list cfg is_apex file_name m =
     (if ENABLE_ALLOW_APEX_INJECT_ALWAYS_KEYWORD_NOT_IN_LIST cfg
      then (if is_apex \<and> list_all (\<lambda>keyword. \<not> py_in keyword file_name)
                               (ALLOW_APEX_INJECT_ALWAYS_KEYWORD_NOT_IN_LIST cfg)
            then ETC else m)
      else m)"

definition allow_apex_always ::
  "post_injector_config \<Rightarrow> bool \<Rightarrow> string \<Rightarrow> module_type \<Rightarrow> module_type" where
  "allow_apex_always cfg is_apex file_name m =
     (if is_apex \<and> any_keyword_in (ALLOW_APEX_INJECT_ALWAYS_KEYWORD_LIST cfg) file_name
      then ETC else m)"

definition disallow_app :: "post_injector_config \<Rightarrow> module_type \<Rightarrow> module_type" where
  "disallow_app cfg m = (if m = APPS \<and> DISALLOW_APP_INJECTION cfg then SKIPPED else m)"

definition java_libraries ::
  "post_injector_config \<Rightarrow> module_type \<Rightarrow> module_type \<Rightarrow> module_type" where
  "java_libraries cfg tmp_module_type m =
     (if m = JAVA_LIBRARIES \<and> DISABLE_JAVA_LIBRARIES_INJECTION cfg then SKIPPED
      else if m = JAVA_LIBRARIES \<and> ALLOW_ALL_JAVA_LIBRARIES_INJECTION cfg then tmp_module_type
      else m)"

definition disable_misc :: "post_injector_config \<Rightarrow> module_type \<Rightarrow> module_type" where
  "disable_misc cfg m = (if m = MISC \<and> DISABLE_MISC_INJECTION cfg then SKIPPED else m)"

definition allow_app_always ::
  "post_injector_config \<Rightarrow> string \<Rightarrow> string \<Rightarrow> module_type \<Rightarrow> module_type \<Rightarrow> module_type" where
  "allow_app_always cfg file_extension file_name tmp_module_type m =
     (if file_extension = ''.apk''
         \<and> (file_name \<in> set (ALLOW_APP_INJECT_ALWAYS cfg)
            \<or> any_keyword_in (ALLOW_APP_INJECT_ALWAYS_KEYWORD_LIST cfg) file_name)
      then tmp_module_type else m)"

definition allow_file_always ::
  "post_injector_config \<Rightarrow> string \<Rightarrow> string \<Rightarrow> module_type \<Rightarrow> module_type \<Rightarrow> module_type" where
  "allow_file_always cfg source_file_path file_name tmp_module_type m =
     (if file_name \<in> set (ALLOW_FILE_INJECT_ALWAYS cfg)
         \<or> any_keyword_in (ALLOW_FILE_INJECT_ALWAYS_KEYWORD_LIST cfg) source_file_path
      then tmp_module_type else m)"

text \<open>The rules after the package-list loop (lines 124--166), in source order.\<close>

definition later_rules ::
  "post_injector_config \<Rightarrow> string \<Rightarrow> string \<Rightarrow> string \<Rightarrow> bool \<Rightarrow> module_type
     \<Rightarrow> module_type \<Rightarrow> module_type" where
  "later_rules cfg source_file_path file_extension file_name is_apex tmp_module_type m =
     allow_file_always cfg source_file_path file_name tmp_module_type
      (allow_app_always cfg file_extension file_name tmp_module_type
        (disable_misc cfg
          (java_libraries cfg tmp_module_type
            (disallow_app cfg
              (allow_apex_always cfg is_apex file_name
                (allow_apex_not_in_list cfg is_apex file_name
                  (skipped_apex_keyword cfg is_apex file_name
                    (shared_library_if_not_exists cfg file_extension file_name
                       tmp_module_type m))))))))"

text \<open>The rules before the package-list loop (lines 100--114), in source order.\<close>

definition earlier_rules ::
  "post_injector_config \<Rightarrow> string \<Rightarrow> string \<Rightarrow> string \<Rightarrow> string \<Rightarrow> module_type
     \<Rightarrow> module_type" where
  "earlier_rules cfg source_file_path file_extension file_name file_name_no_ext m =
     general_deny cfg source_file_path file_extension file_name
      (disable_binary cfg
        (allowed_app_keyword cfg file_name
          (skipped_app_list cfg file_name file_name_no_ext
            (skipped_app_keyword cfg file_name m))))"


text \<open>
  \<open>get_module_type(source_file_path, pre_injector_package_list, post_injector_config)\<close>
  returns the pair \<open>(module_type, tmp_module_type)\<close>, or raises.
\<close>

definition get_module_type ::
  "fsys \<Rightarrow> post_injector_config \<Rightarrow> string \<Rightarrow> string list option
     \<Rightarrow> exn + (module_type \<times> module_type)" where
  "get_module_type fs cfg path pre_injector_package_list =
     (let parent_dir = os_path_dirname path;
          source_file_path = py_strip path;
          file_extension = snd (os_path_splitext source_file_path);
          file_name0 = os_path_basename source_file_path;
          file_name_no_ext = fst (os_path_splitext file_name0);
          is_apex = (file_extension = ''.apex'' \<or> file_extension = ''.capex'');
          (tmp_module_type, file_name) =
             base_module_type fs parent_dir source_file_path file_extension file_name0
      in case already_injected pre_injector_package_list file_name file_name_no_ext
                (earlier_rules cfg source_file_path file_extension file_name file_name_no_ext
                   tmp_module_type) of
           Inl e \<Rightarrow> Inl e
         | Inr m \<Rightarrow>
             Inr (later_rules cfg source_file_path file_extension file_name is_apex
                    tmp_module_type m, tmp_module_type))"

text \<open>The working file name of the classifier, as the last rules see it.\<close>

definition classifier_file_name :: "fsys \<Rightarrow> string \<Rightarrow> string" where
  "classifier_file_name fs path =
     (let source_file_path = py_strip path
      in snd (base_module_type fs (os_path_dirname path) source_file_path
                (snd (os_path_splitext source_file_path))
                (os_path_basename source_file_path)))"

text \<open>A rule set with every list empty and every toggle off.\<close>

definition empty_config :: post_injector_config where
  "empty_config = \<lparr>
     SKIPPED_BINARY_LIST = [], SKIPPED_FILE_ENDING_LIST = [],
     ALLOW_ONLY_EXTENSION_LIST = [], SKIPPED_FILE_EXTENSION_LIST_GENERAL = [],
     SKIPPED_KEYWORD_LIST = [], SKIPPED_APEX_KEYWORD_LIST = [],
     SKIPPED_APP_KEYWORDLIST = [], SKIPPED_APP_LIST = [],
     ALLOWED_APP_INJECTION_KEYWORD = [], DISABLE_BINARY_INJECTION = False,
     ENABLE_SHARED_LIBRARIES_INJECTION_IF_NOT_EXISTS = False,
     SKIPPED_SHARED_LIBRARIES_EVEN_IF_NOT_EXISTS_LIST = [],
     SKIPPED_KEYWORD_SHARED_LIBRARIES_EVEN_IF_NOT_EXISTS_LIST = [],
     ENABLE_ALLOW_APEX_INJECT_ALWAYS_KEYWORD_NOT_IN_LIST = False,
     ALLOW_APEX_INJECT_ALWAYS_KEYWORD_NOT_IN_LIST = [],
     ALLOW_APEX_INJECT_ALWAYS_KEYWORD_LIST = [],
     DISALLOW_APP_INJECTION = False, DISABLE_JAVA_LIBRARIES_INJECTION = False,
     ALLOW_ALL_JAVA_LIBRARIES_INJECTION = False, DISABLE_MISC_INJECTION = False,
     ALLOW_APP_INJECT_ALWAYS = [], ALLOW_APP_INJECT_ALWAYS_KEYWORD_LIST = [],
     ALLOW_FILE_INJECT_ALWAYS = [], ALLOW_FILE_INJECT_ALWAYS_KEYWORD_LIST = [],
     ALLOW_APEX_INJECTION_MERGE = False, ALLOW_APEX_MERGE_KEYWORD_LIST = [],
     APEX_BINARY_ISOLATED_NAMESPACE_LIST = [],
     SKIPPED_FILE_EXTENSION_LIST_INDIRECT_INJECTION = [],
     INDIRECT_INJECTION_FILE_MAPPING = [], USE_ISOLATED_NAMESPACE = False,
     ISOLATED_NAMESPACE_NATIVE_LIBRARY_LIST = [], OVERWRITE_APP_PROCESS_32 = False,
     DIRECT_INJECTION_TARGET_PATH_OVERWRITE = [], CHECK_VNDK_VERSION_MISMATCH = False,
     EMULATOR_VNDK_VERSION = 0, REPLACE_AVB_KEYS = False,
     APEX_DEFAULT_EMULATOR_PATHS_DICT = [] \<rparr>"

section \<open>More path and string primitives\<close>

text \<open>\<open>os.path.join(a, b)\<close> for two components.\<close>

definition os_path_join :: "string \<Rightarrow> string \<Rightarrow> string" where
  "os_path_join a b =
     (if startswith b ''/'' then b
      else if a = [] \<or> endswith a ''/'' then a @ b
      else a @ ''/'' @ b)"

text \<open>\<open>str.lower\<close>, \<open>str.upper\<close> and \<open>str.capitalize\<close> on ASCII letters.\<close>

definition lower_char :: "char \<Rightarrow> char" where
  "lower_char c = (let n = (of_char c :: nat) in if 65 \<le> n \<and> n \<le> 90 then char_of (n + 32) else c)"

definition upper_char :: "char \<Rightarrow> char" where
  "upper_char c = (let n = (of_char c :: nat) in if 97 \<le> n \<and> n \<le> 122 then char_of (n - 32) else c)"

definition py_lower :: "string \<Rightarrow> string" where
  "py_lower s = map lower_char s"

definition py_capitalize :: "string \<Rightarrow> string" where
  "py_capitalize s = (case s of [] \<Rightarrow> [] | c # cs \<Rightarrow> upper_char c # map lower_char cs)"

text \<open>\<open>s.split(sep)\<close> for a one-character separator.\<close>

fun py_split :: "char \<Rightarrow> string \<Rightarrow> string list" where
  "py_split sep [] = [[]]"
| "py_split sep (c # cs) =
     (if c = sep then [] # py_split sep cs
      else (case py_split sep cs of
              [] \<Rightarrow> [[c]]
            | part # parts \<Rightarrow> (c # part) # parts))"

text \<open>\<open>sep.join(parts)\<close>.\<close>

fun py_join :: "string \<Rightarrow> string list \<Rightarrow> string" where
  "py_join sep [] = []"
| "py_join sep [part] = part"
| "py_join sep (part # parts) = part @ sep @ py_join sep parts"

section \<open>Reading the file system\<close>

text \<open>A path with exactly one trailing slash, for prefix tests on directories.\<close>

definition as_directory :: "string \<Rightarrow> string" where
  "as_directory d = rev (dropWhile (\<lambda>c. c = CHR ''/'') (rev d)) @ ''/''"

definition below :: "string \<Rightarrow> string \<Rightarrow> bool" where
  "below d p = (startswith p (as_directory d) \<and> p \<noteq> as_directory d)"

definition isdir :: "fsys \<Rightarrow> string \<Rightarrow> bool" where
  "isdir fs p = (p \<noteq> [] \<and>
                 (resolve fs 41 (rev (dropWhile (\<lambda>c. c = CHR ''/'') (rev p))) = Some Dir
                  \<or> list_ex (\<lambda>(q, n). below p q) fs))"

definition isfile :: "fsys \<Rightarrow> string \<Rightarrow> bool" where
  "isfile fs p = (case resolve fs 41 p of Some (File r x c) \<Rightarrow> True | _ \<Rightarrow> False)"

definition islink :: "fsys \<Rightarrow> string \<Rightarrow> bool" where
  "islink fs p = (case lookup fs p of Some (Symlink t) \<Rightarrow> True | _ \<Rightarrow> False)"

text \<open>\<open>os.path.exists\<close>: follows links; true for files and directories.\<close>

definition exists_path :: "fsys \<Rightarrow> string \<Rightarrow> bool" where
  "exists_path fs p = (isfile fs p \<or> isdir fs p)"

text \<open>The path a chain of symbolic links ends at.\<close>

fun final_path :: "fsys \<Rightarrow> nat \<Rightarrow> string \<Rightarrow> string" where
  "final_path fs 0 p = p"
| "final_path fs (Suc n) p =
     (case lookup fs p of Some (Symlink t) \<Rightarrow> final_path fs n t | _ \<Rightarrow> p)"

text \<open>
  \<open>os.walk(top)\<close>, top down and without following links, reduced to the file paths it
  leads to. The children of the directory are the first path components of the entries below
  it, in the order of their first appearance in the table, which stands for the listing
  order of the operating system. A child that is a directory, also through a symbolic
  link (\<open>entry.is_dir()\<close>), goes to \<open>dirnames\<close>, every other child to \<open>filenames\<close>.
  The files of the directory itself come first, then the walk of each sub-directory that
  is not a symbolic link. The first argument bounds the depth of the walk.
\<close>

definition entry_is_dir :: "fsys \<Rightarrow> string \<Rightarrow> bool" where
  "entry_is_dir fs p = (isdir fs p \<or> isdir fs (final_path fs 40 p))"

definition child_path :: "string \<Rightarrow> string \<Rightarrow> string" where
  "child_path root q =
     as_directory root
       @ takeWhile (\<lambda>c. c \<noteq> CHR ''/'') (drop (length (as_directory root)) q)"

fun os_walk_files :: "nat \<Rightarrow> fsys \<Rightarrow> string \<Rightarrow> string list" where
  "os_walk_files 0 fs root = []"
| "os_walk_files (Suc depth) fs root =
     (let children = filter (\<lambda>c. c \<noteq> as_directory root)
                       (rev (remdups (rev (map (\<lambda>(q, n). child_path root q)
                                             (filter (\<lambda>(q, n). below root q) fs)))));
          filenames = filter (\<lambda>c. \<not> entry_is_dir fs c) children;
          dirnames = filter (\<lambda>c. entry_is_dir fs c) children
      in filenames
         @ concat (map (os_walk_files depth fs) (filter (\<lambda>c. \<not> islink fs c) dirnames)))"

text \<open>
  \<open>get_all_files(directory)\<close>: the files of \<open>os.walk(directory)\<close>, each joined to its
  directory. A walk of the empty path finds nothing. No path of the table is deeper than
  the table is long, so the bound on the depth never cuts the walk.
\<close>

definition get_all_files :: "fsys \<Rightarrow> string \<Rightarrow> string list" where
  "get_all_files fs directory =
     (if directory = [] then []
      else os_walk_files (Suc (length (concat (map fst fs)))) fs directory)"

section \<open>Architecture probe and compatibility (\<open>aosp_post_build_injector.py\<close>)\<close>

text \<open>
  The result strings of \<open>check_binary_architecture\<close> and
  \<open>check_shared_object_architecture\<close> (the two functions have the same body). The error
  string carries the message of the exception, which names the error and the path.
\<close>

datatype architecture = Bits32 | Bits64 | Unknown_architecture
  | Error_determining_architecture string string

text \<open>The exception message of a failed \<open>open(path, 'rb')\<close>.\<close>

definition open_error :: "fsys \<Rightarrow> string \<Rightarrow> string" where
  "open_error fs p =
     (if isdir fs p then ''Is a directory''
      else case resolve fs 41 p of
             None \<Rightarrow> ''No such file or directory''
           | Some n \<Rightarrow> ''Permission denied'')"

definition check_binary_architecture :: "fsys \<Rightarrow> string \<Rightarrow> architecture" where
  "check_binary_architecture fs binary_path =
     (case read_bytes fs binary_path of
        None \<Rightarrow> Error_determining_architecture (open_error fs binary_path) binary_path
      | Some bytes \<Rightarrow>
          (let header = take 5 bytes
           in if length header < 5 then Unknown_architecture
              else if take 4 header = ELF_MAGIC
                   then (let ei_class = (of_char (header ! 4) :: nat)
                         in if ei_class = 1 then Bits32
                            else if ei_class = 2 then Bits64
                            else Unknown_architecture)
                   else Unknown_architecture))"

definition check_shared_object_architecture :: "fsys \<Rightarrow> string \<Rightarrow> architecture" where
  "check_shared_object_architecture fs file_path = check_binary_architecture fs file_path"

definition is_abi_compatible :: "fsys \<Rightarrow> string \<Rightarrow> string \<Rightarrow> bool" where
  "is_abi_compatible fs candidate_path file_path =
     (let candidate_arch = check_binary_architecture fs candidate_path;
          src_arch = check_binary_architecture fs file_path
      in if candidate_arch = Unknown_architecture \<or> candidate_arch \<noteq> src_arch
         then False else True)"

definition is_parent_dir_arm_and_target_arm :: "string \<Rightarrow> string \<Rightarrow> bool" where
  "is_parent_dir_arm_and_target_arm file_path candidate_path =
     (let parent_dir_file_path = os_path_basename (os_path_dirname file_path);
          parent_dir_candidate = os_path_basename (os_path_dirname candidate_path)
      in if parent_dir_file_path = ''arm64'' then py_in ''arm64'' parent_dir_candidate
         else if parent_dir_file_path = ''arm''
              then \<not> py_in ''arm64'' parent_dir_candidate \<and> py_in ''arm'' parent_dir_candidate
              else False)"

definition MODULE_TYPE_ABI_COMPATIBLE :: "string list" where
  "MODULE_TYPE_ABI_COMPATIBLE = [''SHARED_LIBRARIES'', ''EXECUTABLES'', ''ETC'']"

definition check_file_compatibility :: "fsys \<Rightarrow> string \<Rightarrow> string \<Rightarrow> module_type \<Rightarrow> bool" where
  "check_file_compatibility fs file_path candidate_path module_type =
     (let is_match = True;
          is_match =
            (if label module_type \<in> set MODULE_TYPE_ABI_COMPATIBLE \<and> is_elf_binary fs file_path
             then (let is_match = (if \<not> is_abi_compatible fs candidate_path file_path
                                   then False else is_match)
                   in if \<not> (check_shared_object_architecture fs candidate_path
                              = check_shared_object_architecture fs file_path)
                      then False else is_match)
             else is_match);
          is_match =
            (if py_in ''arm'' file_path
             then (if \<not> is_parent_dir_arm_and_target_arm file_path candidate_path
                   then False else is_match)
             else is_match)
      in if module_type = JAVA_LIBRARIES then True else is_match)"

section \<open>Object-cache matcher (\<open>search_original_file_in_obj\<close>)\<close>

definition FOLDER_NAME_OBJECTS :: string where
  "FOLDER_NAME_OBJECTS = ''obj''"

text \<open>
  Lines 805--808: the loop removes incompatible entries from \<open>matches\<close> while iterating
  over it. Python's list iterator keeps an index, so the entry after a removed one is
  skipped; \<open>list.remove\<close> deletes the first equal entry.
\<close>

function remove_incompatible :: "(string \<Rightarrow> bool) \<Rightarrow> nat \<Rightarrow> string list \<Rightarrow> string list" where
  "remove_incompatible compatible i matches =
     (if i < length matches
      then (if \<not> compatible (matches ! i)
            then remove_incompatible compatible (Suc i) (remove1 (matches ! i) matches)
            else remove_incompatible compatible (Suc i) matches)
      else matches)"
  by pat_completeness auto
termination
  by (relation "measure (\<lambda>(compatible, i, matches). length matches - i)")
     (auto simp: length_remove1)

declare remove_incompatible.simps [simp del]

text \<open>The folder name of a candidate, stripped as in lines 825--828.\<close>

definition root_folder_name_stripped :: "string \<Rightarrow> string \<Rightarrow> string \<Rightarrow> string" where
  "root_folder_name_stripped replace_intermediate partition_name root =
     os_path_basename
       (py_replace ''v1_prebuilt'' []
         (py_replace (''_'' @ partition_name) []
           (py_replace replace_intermediate [] root)))"

text \<open>
  The body of the loop of lines 820--876 as a predicate: the candidate is appended to
  the result list exactly when no \<open>continue\<close> is taken and one of the two matching
  branches accepts it.
\<close>

definition candidate_accepted ::
  "fsys \<Rightarrow> post_injector_config \<Rightarrow> string \<Rightarrow> module_type \<Rightarrow> string \<Rightarrow> string \<Rightarrow> string
     \<Rightarrow> bool" where
  "candidate_accepted fs cfg partition_name module_type file_path file_name file =
     (let root = os_path_dirname file;
          candidate_path = file;
          candidate_file_name = os_path_basename candidate_path;
          module_name = fst (os_path_splitext file_name);
          stripped = root_folder_name_stripped ''_intermediates'' partition_name root
      in if (py_in ''vndk'' candidate_path \<and> \<not> py_in ''vndk'' file_path)
            \<or> (py_in ''ndk'' candidate_path \<and> \<not> py_in ''ndk'' file_path) then False
         else if \<not> check_file_compatibility fs file_path candidate_path module_type then False
         else if candidate_file_name = file_name
              then (if partition_name = [] \<or> py_in partition_name root
                    then (if py_in ''com.android'' candidate_path
                             \<and> \<not> py_in ''com.android'' file_path then False
                          else True)
                    else False)
         else if module_name = stripped \<and> py_in partition_name root
              then (let file_extension_src = snd (os_path_splitext file_name);
                        file_extension_obj = snd (os_path_splitext file)
                    in if py_strip (py_lower file_extension_src)
                          = py_strip (py_lower file_extension_obj) then True
                       else if (file_extension_src = ''.apex'' \<and> file_extension_obj = ''.capex'')
                               \<or> (file_extension_src = ''.capex'' \<and> file_extension_obj = ''.apex'')
                            then ALLOW_APEX_INJECTION_MERGE cfg
                            else False)
         else False)"

definition search_original_file_in_obj ::
  "fsys \<Rightarrow> post_injector_config \<Rightarrow> string \<Rightarrow> module_type \<Rightarrow> string \<Rightarrow> string \<Rightarrow> string
     \<Rightarrow> string list option" where
  "search_original_file_in_obj fs cfg partition_name0 module_type file_path file_name
       target_out_path =
     (let target_obj_path0 = os_path_join target_out_path FOLDER_NAME_OBJECTS;
          target_obj_path = (if \<not> endswith target_obj_path0 ''/'' then target_obj_path0 @ ''/''
                             else target_obj_path0);
          search_folder_path = (if module_type \<noteq> MISC \<and> module_type \<noteq> STATIC_CONFIG
                                then target_obj_path @ label module_type
                                else target_obj_path);
          partition_name = (if partition_name0 = ''super'' \<or> partition_name0 = ''system''
                            then [] else partition_name0);
          all_files = get_all_files fs search_folder_path;
          matches = filter (\<lambda>file. os_path_basename file = file_name) all_files;
          file_path_list =
            (if matches \<noteq> []
             then remove_incompatible
                    (\<lambda>matching_file. check_file_compatibility fs file_path matching_file module_type)
                    0 matches
             else (let file_extension = snd (os_path_splitext file_name)
                   in filter (\<lambda>file. snd (os_path_splitext file) = file_extension) all_files));
          result_file_path_list =
            filter (candidate_accepted fs cfg partition_name module_type file_path file_name)
              file_path_list
      in if length result_file_path_list > 0 then Some result_file_path_list else None)"

section \<open>State, exceptions and file-system updates\<close>

text \<open>
  The calls that change the build tree or run an external tool; the list of calls made so
  far is kept in the state to state which of them ran.
\<close>

datatype call = Direct_injection string string | Indirect_injection string string
  | Apk_signing string | Apex_merge string | Apex_repack string | Apex_add string

text \<open>
  The mutable state: the file system, the calls made, and the module-level list
  \<open>config.VENDOR_NAMES\<close>, which \<open>get_vendor_words\<close> appends to.
\<close>

record world =
  files :: fsys
  calls :: "call list"
  VENDOR_NAMES :: "string list"

text \<open>A Python function with effects: it returns a value or raises, and leaves a state.\<close>

type_synonym 'a prog = "world \<Rightarrow> (exn + 'a) \<times> world"

definition return :: "'a \<Rightarrow> 'a prog" where
  "return x w = (Inr x, w)"

definition raise :: "exn \<Rightarrow> 'a prog" where
  "raise e w = (Inl e, w)"

definition and_then :: "'a prog \<Rightarrow> ('a \<Rightarrow> 'b prog) \<Rightarrow> 'b prog" where
  "and_then m f w = (case m w of (Inl e, w') \<Rightarrow> (Inl e, w') | (Inr x, w') \<Rightarrow> f x w')"

text \<open>\<open>try: m except Exception as e: handler(e)\<close>.\<close>

definition try_except :: "'a prog \<Rightarrow> (exn \<Rightarrow> 'a prog) \<Rightarrow> 'a prog" where
  "try_except m handler w =
     (case m w of (Inl e, w') \<Rightarrow> handler e w' | (Inr x, w') \<Rightarrow> (Inr x, w'))"

text \<open>
  \<open>try: m finally: cleanup\<close>: the cleanup runs after a return and after an exception;
  the outcome of \<open>m\<close> stands unless the cleanup raises.
\<close>

definition try_finally :: "'a prog \<Rightarrow> unit prog \<Rightarrow> 'a prog" where
  "try_finally m cleanup w =
     (case m w of (r, w') \<Rightarrow>
        (case cleanup w' of (Inl e, w'') \<Rightarrow> (Inl e, w'') | (Inr u, w'') \<Rightarrow> (r, w'')))"

definition get_files :: "fsys prog" where
  "get_files w = (Inr (files w), w)"

definition set_files :: "fsys \<Rightarrow> unit prog" where
  "set_files fs' w = (Inr (), w\<lparr>files := fs'\<rparr>)"

definition note_call :: "call \<Rightarrow> unit prog" where
  "note_call c w = (Inr (), w\<lparr>calls := calls w @ [c]\<rparr>)"

text \<open>Writing an entry: an existing entry is replaced in place, a new one is appended.\<close>

fun store :: "string \<Rightarrow> node \<Rightarrow> fsys \<Rightarrow> fsys" where
  "store p n [] = [(p, n)]"
| "store p n ((q, m) # rest) = (if q = p then (p, n) # rest else (q, m) # store p n rest)"

definition delete :: "string \<Rightarrow> fsys \<Rightarrow> fsys" where
  "delete p fs = filter (\<lambda>(q, n). q \<noteq> p) fs"

text \<open>
  \<open>open(p, 'w')\<close> followed by writing the bytes: through symbolic links, keeping the
  permission bits of an existing file. Write permissions, missing parent directories and
  other failures of the operating system on writing are not modelled: every write lands.
\<close>

definition write_bytes :: "string \<Rightarrow> string \<Rightarrow> unit prog" where
  "write_bytes p bytes w =
     (let fs = files w; q = final_path fs 40 p
      in case lookup fs q of
           Some (File r x c) \<Rightarrow> (Inr (), w\<lparr>files := store q (File r x bytes) fs\<rparr>)
         | _ \<Rightarrow> (Inr (), w\<lparr>files := store q (File True False bytes) fs\<rparr>))"

definition samefile :: "fsys \<Rightarrow> string \<Rightarrow> string \<Rightarrow> bool" where
  "samefile fs a b = (exists_path fs a \<and> exists_path fs b
                      \<and> final_path fs 40 a = final_path fs 40 b)"

text \<open>\<open>shutil.copyfile(src, dst)\<close>: the bytes only.\<close>

definition copyfile :: "string \<Rightarrow> string \<Rightarrow> unit prog" where
  "copyfile src dst w =
     (if samefile (files w) src dst then (Inl OSError, w)
      else case read_bytes (files w) src of
             None \<Rightarrow> (Inl OSError, w)
           | Some bytes \<Rightarrow> write_bytes dst bytes w)"

text \<open>
  \<open>shutil.copy2(src, dst, follow_symlinks=False)\<close>: a link is copied as a link, which
  fails when the destination exists; a file is copied with its permission bits.
\<close>

definition copy2 :: "string \<Rightarrow> string \<Rightarrow> unit prog" where
  "copy2 src dst0 w =
     (let fs = files w;
          dst = (if isdir fs dst0 then os_path_join dst0 (os_path_basename src) else dst0)
      in if samefile fs src dst then (Inl OSError, w)
         else case lookup fs src of
                Some (Symlink t) \<Rightarrow>
                  (if lookup fs dst \<noteq> None \<or> isdir fs dst then (Inl OSError, w)
                   else (Inr (), w\<lparr>files := store dst (Symlink t) fs\<rparr>))
              | _ \<Rightarrow>
                  (case resolve fs 41 src of
                     Some (File True x bytes) \<Rightarrow>
                       (Inr (), w\<lparr>files := store (final_path fs 40 dst) (File True x bytes) fs\<rparr>)
                   | _ \<Rightarrow> (Inl OSError, w)))"

text \<open>\<open>os.remove\<close>: a file or a link; anything else raises.\<close>

definition os_remove :: "string \<Rightarrow> unit prog" where
  "os_remove p w =
     (case lookup (files w) p of
        Some (File r x c) \<Rightarrow> (Inr (), w\<lparr>files := delete p (files w)\<rparr>)
      | Some (Symlink t) \<Rightarrow> (Inr (), w\<lparr>files := delete p (files w)\<rparr>)
      | _ \<Rightarrow> (Inl OSError, w))"

text \<open>\<open>os.rename\<close> of a file or link.\<close>

definition os_rename :: "string \<Rightarrow> string \<Rightarrow> unit prog" where
  "os_rename src dst w =
     (case lookup (files w) src of
        None \<Rightarrow> (Inl OSError, w)
      | Some Dir \<Rightarrow> (Inl OSError, w)
      | Some n \<Rightarrow>
          (if isdir (files w) dst then (Inl OSError, w)
           else if src = dst then (Inr (), w)
           else (Inr (), w\<lparr>files := store dst n (delete src (files w))\<rparr>)))"

text \<open>\<open>os.makedirs(p, exist_ok=True)\<close>.\<close>

definition os_makedirs :: "string \<Rightarrow> unit prog" where
  "os_makedirs p w =
     (let fs = files w; q = rev (dropWhile (\<lambda>c. c = CHR ''/'') (rev p))
      in if isdir fs p then (Inr (), w)
         else if lookup fs q \<noteq> None then (Inl OSError, w)
         else (Inr (), w\<lparr>files := store q Dir fs\<rparr>))"

text \<open>
  \<open>compute_file_hash\<close>: the digest is only logged; what matters is that reading the file
  may raise.
\<close>

definition compute_file_hash :: "string \<Rightarrow> unit prog" where
  "compute_file_hash file_path w =
     (case read_bytes (files w) file_path of
        None \<Rightarrow> (Inl OSError, w)
      | Some bytes \<Rightarrow> (Inr (), w))"

text \<open>
  \<open>set_executable_permission\<close>: \<open>os.path.splitext\<close> never returns \<open>None\<close>, so only
  \<open>.so\<close> files get the bit. The \<open>chmod\<close> does not fail in this model.
\<close>

definition set_executable_permission :: "string \<Rightarrow> bool prog" where
  "set_executable_permission file_path w =
     (let fs = files w; file_extension = snd (os_path_splitext file_path)
      in if exists_path fs file_path \<and> \<not> islink fs file_path \<and> isfile fs file_path
            \<and> file_extension = ''.so''
         then (case lookup fs file_path of
                 Some (File r x c) \<Rightarrow> (Inr True, w\<lparr>files := store file_path (File r True c) fs\<rparr>)
               | _ \<Rightarrow> (Inr True, w))
         else (Inr True, w))"

section \<open>Indirect injection into the object cache\<close>

definition get_path_up_to_first_term :: "string \<Rightarrow> string \<Rightarrow> string option" where
  "get_path_up_to_first_term path term =
     (let parts = py_split CHR ''/'' path
      in case find (\<lambda>i. parts ! i = term) [0 ..< length parts] of
           None \<Rightarrow> None
         | Some i \<Rightarrow> Some (py_join ''/'' (take (Suc i) parts) @ ''/''))"

text \<open>
  Reading in text mode: a carriage return followed by a line feed, and a carriage return
  alone, both arrive as one line feed.
\<close>

fun universal_newlines :: "string \<Rightarrow> string" where
  "universal_newlines [] = []"
| "universal_newlines [c] = (if c = CHR 0x0D then [CHR 0x0A] else [c])"
| "universal_newlines (c # d # cs) =
     (if c = CHR 0x0D \<and> d = CHR 0x0A then CHR 0x0A # universal_newlines cs
      else if c = CHR 0x0D then CHR 0x0A # universal_newlines (d # cs)
      else c # universal_newlines (d # cs))"

text \<open>\<open>f.readlines()\<close> on a file opened in text mode: the lines with their line feeds.\<close>

fun split_lines :: "string \<Rightarrow> string list" where
  "split_lines [] = []"
| "split_lines (c # cs) =
     (if c = CHR 0x0A then [c] # split_lines cs
      else (case split_lines cs of
              [] \<Rightarrow> [[c]]
            | line # lines \<Rightarrow> (c # line) # lines))"

definition readlines :: "string \<Rightarrow> string list" where
  "readlines bytes = split_lines (universal_newlines bytes)"

definition injection_marker :: string where
  "injection_marker = ''####### FMD INJECTION MARKER #######''"

text \<open>
  \<open>inject_apex_symlink_file\<close>. \<open>aosp_version\<close> is the number the version string
  stands for, or \<open>None\<close>.
\<close>

definition inject_apex_symlink_file ::
  "post_injector_config \<Rightarrow> string \<Rightarrow> string \<Rightarrow> string \<Rightarrow> string \<Rightarrow> string \<Rightarrow> nat option
     \<Rightarrow> bool prog" where
  "inject_apex_symlink_file cfg filename source_file_path original_file_path aosp_path
       partition_name aosp_version =
     (let target_path = ''/apex/com.android.fmd.'' @ filename @ ''.apex/bin/'' @ filename
      in case get_path_up_to_first_term source_file_path partition_name of
           None \<Rightarrow> raise TypeError
         | Some root_path \<Rightarrow>
             (let relative_source_path = py_replace root_path [] source_file_path;
                  product = (if aosp_version = Some 13 then ''out/target/product/emulator64_arm64''
                             else if (case aosp_version of None \<Rightarrow> False | Some v \<Rightarrow> v \<ge> 14)
                                  then ''out/target/product/emu64a''
                                  else ''out/target/product/emulator_arm64'');
                  abs_source_path =
                    os_path_join (os_path_join aosp_path product) relative_source_path;
                  inject_commands =
                    [''os.remove('' @ [CHR 0x27] @ abs_source_path @ [CHR 0x27] @ '')'',
                     ''subprocess.call(['' @ [CHR 0x27] @ ''ln'' @ [CHR 0x27] @ '', ''
                       @ [CHR 0x27] @ ''-s'' @ [CHR 0x27] @ '', ''
                       @ [CHR 0x27] @ target_path @ [CHR 0x27] @ '', ''
                       @ [CHR 0x27] @ abs_source_path @ [CHR 0x27] @ ''])''];
                  build_image_file_path =
                    os_path_join aosp_path ''build/make/tools/releasetools/build_image.py''
              in if USE_ISOLATED_NAMESPACE cfg
                 then try_except
                        (and_then get_files (\<lambda>fs.
                           case read_bytes fs build_image_file_path of
                             None \<Rightarrow> raise OSError
                           | Some bytes \<Rightarrow>
                               and_then
                                 (write_bytes build_image_file_path
                                    (concat (map (\<lambda>line.
                                       if py_in injection_marker line
                                       then injection_marker @ [CHR 0x0A]
                                            @ concat (map (\<lambda>command. ''    '' @ command @ [CHR 0x0A])
                                                        inject_commands)
                                       else line) (readlines bytes))))
                                 (\<lambda>u. return True)))
                        (\<lambda>e. return False)
                 else return True))"

text \<open>
  Lines 1188--1195 of \<open>inject_file_into_obj\<close>: the destination for a candidate under
  \<open>/apex/\<close>. The middle branch compares the module type with the string \<open>BINARY\<close>.
\<close>

definition apex_new_file_path :: "module_type \<Rightarrow> string \<Rightarrow> string" where
  "apex_new_file_path module_type file_name =
     (if label module_type = ''JAVA_LIBRARIES'' then ''/system/framework/'' @ file_name
      else if label module_type = ''BINARY'' then ''/bin/'' @ file_name
      else ''/etc/'' @ file_name)"

definition inject_file_into_obj ::
  "post_injector_config \<Rightarrow> string \<Rightarrow> string \<Rightarrow> module_type \<Rightarrow> string \<Rightarrow> string \<Rightarrow> nat option
     \<Rightarrow> bool prog" where
  "inject_file_into_obj cfg source_file_path original_file_path module_type aosp_path
       partition_name aosp_version =
     and_then (note_call (Indirect_injection source_file_path original_file_path)) (\<lambda>u.
     and_then (compute_file_hash source_file_path) (\<lambda>inj_md5.
     and_then (compute_file_hash original_file_path) (\<lambda>org_md5.
       (let filename = os_path_basename source_file_path;
            file_name = os_path_basename original_file_path
        in try_except
             (if py_in ''/apex/'' original_file_path
              then and_then (copyfile source_file_path (apex_new_file_path module_type file_name))
                     (\<lambda>u. return True)
              else if filename \<in> set (APEX_BINARY_ISOLATED_NAMESPACE_LIST cfg)
                      \<or> source_file_path \<in> set (APEX_BINARY_ISOLATED_NAMESPACE_LIST cfg)
                   then inject_apex_symlink_file cfg filename source_file_path
                          original_file_path aosp_path partition_name aosp_version
                   else and_then (copyfile source_file_path original_file_path) (\<lambda>u.
                        and_then (set_executable_permission original_file_path) (\<lambda>ok.
                          return True)))
             (\<lambda>e. return False)))))"

section \<open>Vendor names (\<open>common.py\<close>)\<close>

definition is_alnum :: "char \<Rightarrow> bool" where
  "is_alnum c = (let n = (of_char c :: nat)
                 in (48 \<le> n \<and> n \<le> 57) \<or> (65 \<le> n \<and> n \<le> 90) \<or> (97 \<le> n \<and> n \<le> 122))"

text \<open>
  The match of \<open>com\.([a-z0-9]+)\.android\..*\<close> (ignoring case) at the start of the
  string, and its group 1. The group cannot contain a dot, so it is the longest run of
  letters and digits after \<open>com.\<close>.
\<close>

definition vendor_pattern_match :: "string \<Rightarrow> string option" where
  "vendor_pattern_match s =
     (if py_lower (take 4 s) = ''com.''
      then (let vendor = takeWhile is_alnum (drop 4 s);
                rest = drop (4 + length vendor) s
            in if vendor \<noteq> [] \<and> py_lower (take 9 rest) = ''.android.'' then Some vendor
               else None)
      else None)"

definition extract_vendor_name :: "string list \<Rightarrow> string \<Rightarrow> string \<Rightarrow> string" where
  "extract_vendor_name vendor_names filename directory =
     (case vendor_pattern_match filename of
        Some vendor \<Rightarrow> vendor
      | None \<Rightarrow>
          (if directory \<noteq> []
              \<and> list_ex (\<lambda>part. py_lower part \<in> set vendor_names \<and> \<not> (part \<noteq> ''.''))
                   (py_split CHR ''/'' directory)
           then ''.'' else []))"

definition extract_vendor_name_from_filename :: "string \<Rightarrow> string" where
  "extract_vendor_name_from_filename filename =
     (case vendor_pattern_match filename of Some vendor \<Rightarrow> vendor | None \<Rightarrow> [])"

text \<open>
  \<open>get_vendor_words(file_path=None, filename=None)\<close>. The list object of
  \<open>VENDOR_NAMES\<close> is appended to in place. \<open>list(set(...))\<close> is modelled by \<open>remdups\<close>:
  the order Python gives the set is not specified.
\<close>

definition get_vendor_words :: "string option \<Rightarrow> string option \<Rightarrow> string list prog" where
  "get_vendor_words file_path filename w =
     (let truthy = (\<lambda>a. case a of None \<Rightarrow> False | Some s \<Rightarrow> s \<noteq> [])
      in if \<not> truthy file_path \<and> \<not> truthy filename
         then (Inl (Raised ''No file path provided''), w)
         else (let vendor_name =
                     (if truthy file_path
                      then extract_vendor_name (VENDOR_NAMES w) (the file_path)
                             (os_path_dirname (the file_path))
                      else extract_vendor_name_from_filename (the filename));
                   appended = VENDOR_NAMES w
                      @ [if startswith vendor_name ''.'' then vendor_name else ''.'' @ vendor_name];
                   vendor_name_list = remdups appended;
                   words_to_replace =
                     concat (map (\<lambda>name. if name \<noteq> [] \<and> name \<noteq> ''.'' \<and> name \<noteq> ''..''
                                          then [''.'' @ py_lower name, ''.'' @ py_capitalize name]
                                          else []) vendor_name_list)
               in (Inr words_to_replace, w\<lparr>VENDOR_NAMES := appended\<rparr>)))"

definition remove_vendor_name_from_path :: "string \<Rightarrow> string prog" where
  "remove_vendor_name_from_path file_path =
     and_then (get_vendor_words (Some file_path) None) (\<lambda>words_to_replace.
       (let base_path = os_path_dirname file_path;
            filename = foldl (\<lambda>filename word. py_replace word [] filename)
                         (os_path_basename file_path) words_to_replace
        in return (os_path_join base_path filename)))"

definition remove_vendor_name_from_filename :: "string \<Rightarrow> string prog" where
  "remove_vendor_name_from_filename filename =
     and_then (get_vendor_words None (Some filename)) (\<lambda>words_to_replace.
       return (foldl (\<lambda>filename_no_ext word. py_replace word [] filename_no_ext)
                 filename words_to_replace))"

section \<open>Injection strategy (\<open>search_and_inject\<close>)\<close>

text \<open>
  The record in the indirect slot of a result: \<open>(file_path, original_file_path,
  module_type)\<close>, or \<open>(error_message, None, module_type)\<close> when no original was found.
  The record in the direct slot: \<open>(file_path, target_path, module_type)\<close>.
\<close>

type_synonym inj_obj = "string \<times> string option \<times> module_type"
type_synonym inj_partition = "string \<times> string \<times> module_type"

text \<open>What \<open>original_file_path\<close> holds: a path from the override table, or a list from the matcher.\<close>

datatype original = Path string | Paths "string list"

text \<open>
  The loop of lines 524--526 over the candidates: each is overwritten in turn, the last
  one determines \<open>is_injected\<close> and \<open>inj_obj\<close>.
\<close>

fun inject_into_all ::
  "post_injector_config \<Rightarrow> string \<Rightarrow> module_type \<Rightarrow> string \<Rightarrow> string \<Rightarrow> nat option
     \<Rightarrow> bool \<times> inj_obj option \<Rightarrow> string list \<Rightarrow> (bool \<times> inj_obj option) prog" where
  "inject_into_all cfg file_path module_type aosp_path partition_name aosp_version acc [] =
     return acc"
| "inject_into_all cfg file_path module_type aosp_path partition_name aosp_version acc
       (original_file_path # rest) =
     and_then (inject_file_into_obj cfg file_path original_file_path module_type aosp_path
                 partition_name aosp_version) (\<lambda>is_injected.
       inject_into_all cfg file_path module_type aosp_path partition_name aosp_version
         (is_injected, Some (file_path, Some original_file_path, module_type)) rest)"

definition indirect_injection ::
  "post_injector_config \<Rightarrow> string \<Rightarrow> string \<Rightarrow> string \<Rightarrow> string \<Rightarrow> module_type \<Rightarrow> string
     \<Rightarrow> inj_partition option \<Rightarrow> string \<Rightarrow> nat option
     \<Rightarrow> (inj_obj option \<times> inj_partition option \<times> bool option) prog" where
  "indirect_injection cfg target_file_injection_path file_name target_out_path partition_name
       module_type file_path inj_partition aosp_path aosp_version =
     (let file_ext = snd (os_path_splitext file_name)
      in if file_ext \<in> set (SKIPPED_FILE_EXTENSION_LIST_INDIRECT_INJECTION cfg)
         then return (None, inj_partition, None)
         else if file_name \<notin> set (ALLOW_FILE_INJECT_ALWAYS cfg)
                 \<and> ENABLE_SHARED_LIBRARIES_INJECTION_IF_NOT_EXISTS cfg \<and> file_ext = ''.so''
         then return (None, inj_partition, None)
         else
           and_then get_files (\<lambda>fs.
           and_then
             (case (if file_name \<in> set (map fst (INDIRECT_INJECTION_FILE_MAPPING cfg))
                    then (if \<not> check_file_compatibility fs file_path target_file_injection_path
                                 module_type
                          then None
                          else Some (Path (os_path_join target_out_path
                                  (the (map_of (INDIRECT_INJECTION_FILE_MAPPING cfg) file_name)))))
                    else map_option Paths
                           (search_original_file_in_obj fs cfg partition_name module_type
                              file_path file_name target_out_path)) of
                Some original \<Rightarrow> return (Some original)
              | None \<Rightarrow>
                  and_then (remove_vendor_name_from_path file_path) (\<lambda>file_path_vendor_replaced.
                    return (map_option Paths
                      (search_original_file_in_obj fs cfg partition_name module_type
                         file_path_vendor_replaced
                         (os_path_basename file_path_vendor_replaced) target_out_path))))
             (\<lambda>original_file_path.
                case original_file_path of
                  Some (Paths original_file_path_list) \<Rightarrow>
                    and_then (inject_into_all cfg file_path module_type aosp_path partition_name
                                aosp_version (False, None) original_file_path_list)
                      (\<lambda>(is_injected, inj_obj). return (inj_obj, inj_partition, Some is_injected))
                | Some (Path path) \<Rightarrow>
                    and_then (inject_file_into_obj cfg file_path path module_type aosp_path
                                partition_name aosp_version)
                      (\<lambda>is_injected. return (Some (file_path, Some path, module_type),
                                              inj_partition, Some is_injected))
                | None \<Rightarrow>
                    return (Some (''Original file not found for indirect injection: '' @ file_path
                                    @ '' | '' @ file_name, None, module_type),
                            inj_partition, Some False))))"

definition is_top_folder :: "string \<Rightarrow> string \<Rightarrow> bool" where
  "is_top_folder library_path folder_name =
     (hd (py_split CHR ''/'' library_path) = folder_name)"

text \<open>\<open>list.index\<close> raises \<open>ValueError\<close> when the element is missing.\<close>

definition get_subfolders :: "string \<Rightarrow> string \<Rightarrow> exn + string list" where
  "get_subfolders file_path top_folder_name =
     (if py_in top_folder_name file_path \<and> \<not> is_top_folder file_path top_folder_name
      then (let path_list = py_split CHR ''/'' file_path;
                wanted = py_replace ''/'' [] top_folder_name
            in case find (\<lambda>i. path_list ! i = wanted) [0 ..< length path_list] of
                 None \<Rightarrow> Inl ValueError
               | Some top_folder_index \<Rightarrow> Inr (butlast (drop (Suc top_folder_index) path_list)))
      else Inr [])"

text \<open>\<open>os.path.normpath\<close>.\<close>

definition os_path_normpath :: "string \<Rightarrow> string" where
  "os_path_normpath path =
     (if path = [] then ''.''
      else (let initial_slashes =
                  (if startswith path ''/''
                   then (if startswith path ''//'' \<and> \<not> startswith path ''///'' then 2 else 1)
                   else (0::nat));
                new_comps =
                  foldl (\<lambda>new_comps comp.
                           if comp = [] \<or> comp = ''.'' then new_comps
                           else if comp \<noteq> ''..'' \<or> (initial_slashes = 0 \<and> new_comps = [])
                                   \<or> (new_comps \<noteq> [] \<and> last new_comps = ''..'')
                                then new_comps @ [comp]
                                else if new_comps \<noteq> [] then butlast new_comps
                                else new_comps)
                        [] (py_split CHR ''/'' path);
                joined = replicate initial_slashes CHR ''/'' @ py_join ''/'' new_comps
            in if joined = [] then ''.'' else joined))"

definition get_target_injection_path ::
  "post_injector_config \<Rightarrow> string \<Rightarrow> string \<Rightarrow> string \<Rightarrow> string prog" where
  "get_target_injection_path cfg source_file_path partition_name0 target_out_path =
     (let partition_name = (if partition_name0 = ''super'' then ''system'' else partition_name0);
          filename = os_path_basename source_file_path;
          file_extension = snd (os_path_splitext source_file_path);
          target_partition_path0 = target_out_path @ partition_name;
          target_partition_path = (if \<not> endswith target_partition_path0 ''/''
                                   then target_partition_path0 @ ''/'' else target_partition_path0)
      in case get_subfolders source_file_path partition_name of
           Inl e \<Rightarrow> raise e
         | Inr subfolder_list \<Rightarrow>
             and_then get_files (\<lambda>fs.
               (let target_dir_injection_path =
                      (if length subfolder_list = 0 then target_partition_path
                       else (let dir =
                                   (if file_extension \<in> set [''.so'', ''.1'', ''.2'', ''.3'', ''.4'',
                                                                ''.5'', ''.6'', ''.7'', ''.8'', ''.9'']
                                       \<and> USE_ISOLATED_NAMESPACE cfg
                                       \<and> py_in ''/lib'' source_file_path
                                       \<and> check_shared_object_architecture fs source_file_path = Bits64
                                       \<and> filename \<in> set (ISOLATED_NAMESPACE_NATIVE_LIBRARY_LIST cfg)
                                    then os_path_join target_partition_path ''fmd''
                                    else target_partition_path
                                           @ foldl os_path_join (hd subfolder_list) (tl subfolder_list))
                             in py_replace ''/system/product/'' ''/product/''
                                  (py_replace ''/system/vendor/'' ''/vendor/''
                                    (py_replace ''/system/system_ext/'' ''/system_ext/''
                                      (py_replace ''/system/system/'' ''/system/'' dir)))))
                in and_then
                     (if \<not> exists_path fs target_dir_injection_path
                         \<and> \<not> islink fs target_dir_injection_path
                      then os_makedirs target_dir_injection_path else return ())
                     (\<lambda>u. return (os_path_normpath
                             (os_path_join target_dir_injection_path
                                (os_path_basename source_file_path)))))))"

definition handle_special_matching :: "string \<Rightarrow> string" where
  "handle_special_matching source_file_injection_path =
     (if endswith source_file_injection_path ''app_process32''
      then py_replace ''app_process32'' ''app_process64'' source_file_injection_path
      else source_file_injection_path)"

text \<open>
  \<open>inject_file_into_partition\<close> (direct injection) returns the target path. The external
  command \<open>sudo cp -a\<close> copies a link as a link; its failure is only logged.
\<close>

definition inject_file_into_partition ::
  "post_injector_config \<Rightarrow> string \<Rightarrow> string \<Rightarrow> string \<Rightarrow> string \<Rightarrow> string \<Rightarrow> nat option
     \<Rightarrow> string prog" where
  "inject_file_into_partition cfg source_file_path0 target_file_injection_path0 aosp_path
       partition_name lunch_target aosp_version =
     and_then (note_call (Direct_injection source_file_path0 target_file_injection_path0)) (\<lambda>u.
       (let filename = os_path_basename target_file_injection_path0;
            source_file_path = (if OVERWRITE_APP_PROCESS_32 cfg
                                then handle_special_matching source_file_path0
                                else source_file_path0);
            target_file_injection_path =
              (case map_of (DIRECT_INJECTION_TARGET_PATH_OVERWRITE cfg) filename of
                 Some overwrite \<Rightarrow>
                   os_path_join
                     (os_path_join aosp_path
                        (if py_in ''phone64'' lunch_target
                         then ''out/target/product/emulator64_arm64''
                         else ''out/target/product/emulator_arm64''))
                     overwrite
               | None \<Rightarrow> target_file_injection_path0)
        in if filename \<in> set (APEX_BINARY_ISOLATED_NAMESPACE_LIST cfg)
              \<or> source_file_path \<in> set (APEX_BINARY_ISOLATED_NAMESPACE_LIST cfg)
           then and_then (inject_apex_symlink_file cfg filename source_file_path
                            target_file_injection_path aosp_path partition_name aosp_version)
                  (\<lambda>is_injected. return target_file_injection_path)
           else
             and_then get_files (\<lambda>fs.
               if exists_path fs target_file_injection_path
               then (if islink fs target_file_injection_path
                     then and_then
                            (try_except (copy2 source_file_path target_file_injection_path)
                               (\<lambda>e. return ()))
                            (\<lambda>u. return target_file_injection_path)
                     else and_then
                            (try_except
                               (if isfile fs source_file_path
                                then and_then (compute_file_hash source_file_path) (\<lambda>inj_md5.
                                     and_then (compute_file_hash target_file_injection_path) (\<lambda>org_md5.
                                     and_then (copy2 source_file_path target_file_injection_path) (\<lambda>u.
                                     and_then (set_executable_permission target_file_injection_path)
                                       (\<lambda>ok. if \<not> ok then raise PermissionError else return ()))))
                                else return ())
                               (\<lambda>e. return ()))
                            (\<lambda>u. return target_file_injection_path))
               else
                 and_then
                   (if \<not> exists_path fs source_file_path then return ()
                    else and_then (os_makedirs (os_path_dirname target_file_injection_path)) (\<lambda>u.
                           try_except
                             (if isfile fs source_file_path \<and> \<not> islink fs source_file_path
                              then copy2 source_file_path target_file_injection_path
                              else if islink fs source_file_path
                                   then (case lookup fs source_file_path of
                                           Some n \<Rightarrow> set_files (store target_file_injection_path n fs)
                                         | None \<Rightarrow> return ())
                                   else return ())
                             (\<lambda>e. return ())))
                   (\<lambda>u. and_then (set_executable_permission target_file_injection_path)
                           (\<lambda>ok. if \<not> ok then raise PermissionError
                                  else return target_file_injection_path)))))"

text \<open>
  \<open>search_and_inject\<close> returns \<open>(inj_obj, inj_partition)\<close>. The block after the
  branches calls \<open>hashlib.md5\<close> on a \<open>str\<close>, which raises \<open>TypeError\<close>; the exception is
  swallowed, so the direct record stays a triple.
\<close>

definition search_and_inject ::
  "post_injector_config \<Rightarrow> string \<Rightarrow> module_type \<Rightarrow> string \<Rightarrow> string \<Rightarrow> string \<Rightarrow> string
     \<Rightarrow> nat option \<Rightarrow> (inj_obj option \<times> inj_partition option) prog" where
  "search_and_inject cfg partition_name module_type file_path target_out_path aosp_path
       lunch_target aosp_version =
     (let file_name = os_path_basename file_path;
          file_extension = snd (os_path_splitext file_name)
      in and_then (get_target_injection_path cfg file_path partition_name target_out_path)
           (\<lambda>target_file_injection_path.
         and_then get_files (\<lambda>fs.
           if file_extension = ''.apex'' \<or> file_extension = ''.capex''
           then (if \<not> exists_path fs target_file_injection_path
                    \<and> \<not> any_keyword_in (ALLOW_APEX_MERGE_KEYWORD_LIST cfg)
                          (os_path_basename target_file_injection_path)
                 then and_then (inject_file_into_partition cfg file_path
                                  target_file_injection_path aosp_path partition_name
                                  lunch_target aosp_version)
                        (\<lambda>target_path. return (None, Some (file_path, target_path, module_type)))
                 else and_then (indirect_injection cfg target_file_injection_path file_name
                                  target_out_path partition_name module_type file_path None
                                  aosp_path aosp_version)
                        (\<lambda>(inj_obj, inj_partition, is_injected). return (inj_obj, inj_partition)))
           else if \<not> exists_path fs target_file_injection_path
           then and_then (inject_file_into_partition cfg file_path target_file_injection_path
                            aosp_path partition_name lunch_target aosp_version)
                  (\<lambda>target_path. return (None, Some (file_path, target_path, module_type)))
           else and_then (indirect_injection cfg target_file_injection_path file_name
                            target_out_path partition_name module_type file_path None
                            aosp_path aosp_version)
                  (\<lambda>(inj_obj, inj_partition, is_injected).
                     if is_injected = Some False
                     then and_then (inject_file_into_partition cfg file_path
                                      target_file_injection_path aosp_path partition_name
                                      lunch_target aosp_version)
                            (\<lambda>target_path.
                               return (inj_obj, Some (file_path, target_path, module_type)))
                     else return (inj_obj, inj_partition)))))"

section \<open>Container transform (\<open>aosp_apex_injector.py\<close>)\<close>

text \<open>
  The external toolchain and the helpers that only drive it are parameters: each may change
  the file system, return a result or raise. \<open>extract_apex_file\<close> runs the extraction
  tool, \<open>create_apex_container\<close> the packaging tool (its result here is success, log and
  the path of the public key), \<open>sign_apex_file\<close> the signer. \<open>build_merged_tree\<close> stands
  for the steps of \<open>merge_apex_files\<close> that assemble the merged tree in temporary
  directories, \<open>unzip_original_apex\<close> for reading the member \<open>original_apex\<close> of a
  compressed container, \<open>get_vndk_version\<close> for the version string found in a file.
\<close>

record env =
  handle_apk_signing :: "string \<Rightarrow> (bool \<times> string) prog"
  unzip_original_apex :: "fsys \<Rightarrow> string \<Rightarrow> string option"
  get_vndk_version :: "fsys \<Rightarrow> string \<Rightarrow> nat"
  extract_apex_file :: "string \<Rightarrow> (bool \<times> string) prog"
  build_merged_tree :: "string \<Rightarrow> string \<Rightarrow> unit prog"
  generate_canned_fs_config :: "unit prog"
  move_apex_manifest_file :: "string \<Rightarrow> (bool \<times> string) prog"
  copy_android_prebuilt_jar :: "unit prog"
  create_apex_container :: "string \<Rightarrow> bool \<Rightarrow> (bool \<times> string \<times> string) prog"
  sign_apex_file :: "string \<Rightarrow> (bool \<times> string) prog"
  add_new_apex_file :: "string \<Rightarrow> string \<Rightarrow> (bool \<times> string) prog"

text \<open>The text of an exception, as \<open>str(e)\<close> gives it.\<close>

fun exn_text :: "exn \<Rightarrow> string" where
  "exn_text TypeError = ''TypeError''"
| "exn_text ValueError = ''ValueError''"
| "exn_text OSError = ''OSError''"
| "exn_text PermissionError = ''PermissionError''"
| "exn_text (Raised message) = message"

definition rename_file :: "string \<Rightarrow> string \<Rightarrow> string prog" where
  "rename_file file_path new_name =
     (let new_file_path = os_path_join (os_path_dirname file_path) new_name
      in and_then (os_rename file_path new_file_path) (\<lambda>u. return new_file_path))"

definition prepare_capex :: "env \<Rightarrow> string \<Rightarrow> string \<Rightarrow> string \<Rightarrow> string option prog" where
  "prepare_capex ev file_path output_dir output_filename =
     and_then get_files (\<lambda>fs.
       case unzip_original_apex ev fs file_path of
         None \<Rightarrow> return None
       | Some bytes \<Rightarrow>
           (let out_file = os_path_join output_dir output_filename
            in try_except
                 (and_then (write_bytes out_file bytes) (\<lambda>u. return (Some out_file)))
                 (\<lambda>e. return None)))"

definition restore_original_apex :: "string \<Rightarrow> string \<Rightarrow> unit prog" where
  "restore_original_apex file_path org_apex_file =
     and_then (os_remove file_path) (\<lambda>u. copyfile org_apex_file file_path)"

definition prepare_apex_out_file :: "string \<Rightarrow> string" where
  "prepare_apex_out_file file_path =
     os_path_join (os_path_dirname file_path)
       (py_replace ''.apex'' ''.v2.apex'' (os_path_basename file_path))"

text \<open>\<open>backup_original_apex_file\<close> returns \<open>(apex_out_file, org_apex_file)\<close>.\<close>

definition backup_original_apex_file :: "string \<Rightarrow> (string \<times> string) prog" where
  "backup_original_apex_file file_path =
     (let org_apex_file = file_path @ ''.original_apex''
      in and_then get_files (\<lambda>fs.
         and_then (if exists_path fs org_apex_file
                   then restore_original_apex file_path org_apex_file
                   else copyfile file_path org_apex_file) (\<lambda>u.
         and_then get_files (\<lambda>fs.
           (let apex_out_file = prepare_apex_out_file file_path
            in and_then (if exists_path fs apex_out_file then os_remove apex_out_file
                         else return ())
                 (\<lambda>u. return (apex_out_file, org_apex_file)))))))"

definition replace_org_apex_file :: "string \<Rightarrow> string \<Rightarrow> unit prog" where
  "replace_org_apex_file file_path apex_out_file =
     and_then (os_remove file_path) (\<lambda>u.
     and_then (copyfile apex_out_file file_path) (\<lambda>u.
       os_remove apex_out_file))"

definition is_digit :: "char \<Rightarrow> bool" where
  "is_digit c = (let n = (of_char c :: nat) in 48 \<le> n \<and> n \<le> 57)"

text \<open>\<open>re.sub(r'tzdata\d+', 'tzdata', s)\<close>.\<close>

function sub_tzdata_digits :: "string \<Rightarrow> string" where
  "sub_tzdata_digits [] = []"
| "sub_tzdata_digits (c # cs) =
     (if startswith (c # cs) ''tzdata'' \<and> list_ex is_digit (take 1 (drop 5 cs))
      then ''tzdata'' @ sub_tzdata_digits (dropWhile is_digit (drop 5 cs))
      else c # sub_tzdata_digits cs)"
  by pat_completeness auto
termination
proof (relation "measure length")
  show "wf (measure length)" by simp
next
  fix c :: char and cs :: string
  have "length (dropWhile is_digit (drop 5 cs)) \<le> length (drop 5 cs)"
    by (rule length_dropWhile_le)
  then show "(dropWhile is_digit (drop 5 cs), c # cs) \<in> measure length"
    by simp
next
  fix c :: char and cs :: string
  show "(cs, c # cs) \<in> measure length" by simp
qed

definition get_apex_build_intermediate_folder :: "fsys \<Rightarrow> string \<Rightarrow> exn + string" where
  "get_apex_build_intermediate_folder fs target_out_path =
     (let apex_folder_path = os_path_join target_out_path ''apex''
      in if exists_path fs apex_folder_path then Inr apex_folder_path else Inl ValueError)"

definition get_match_existing_emulator_folders ::
  "post_injector_config \<Rightarrow> string \<Rightarrow> string option" where
  "get_match_existing_emulator_folders cfg filename_no_vendor0 =
     (let filename_no_vendor =
            (if py_in ''tzdata'' filename_no_vendor0 then sub_tzdata_digits filename_no_vendor0
             else filename_no_vendor0)
      in map_option snd
           (find (\<lambda>(key, path). py_in key filename_no_vendor
                    \<and> \<not> (key = ''media'' \<and> (py_in ''mediaprovider'' filename_no_vendor
                                               \<or> py_in ''swcodec'' filename_no_vendor)))
              (APEX_DEFAULT_EMULATOR_PATHS_DICT cfg)))"

text \<open>
  \<open>find_emulator_apex_folder\<close>: joining the root with \<open>None\<close> raises \<open>TypeError\<close> when no
  key of the table matches.
\<close>

definition find_emulator_apex_folder ::
  "post_injector_config \<Rightarrow> string \<Rightarrow> string \<Rightarrow> string option prog" where
  "find_emulator_apex_folder cfg target_out_path file_path =
     and_then (remove_vendor_name_from_filename (os_path_basename file_path)) (\<lambda>no_vendor.
       (let filename_no_vendor = py_replace ''.capex'' [] (py_replace ''.apex'' [] no_vendor)
        in and_then get_files (\<lambda>fs.
             case get_apex_build_intermediate_folder fs target_out_path of
               Inl e \<Rightarrow> raise e
             | Inr apex_emulator_folder_root \<Rightarrow>
                 (case get_match_existing_emulator_folders cfg filename_no_vendor of
                    None \<Rightarrow> raise TypeError
                  | Some apex_emulator_folder_name \<Rightarrow>
                      (let apex_module_folder =
                             os_path_join apex_emulator_folder_root apex_emulator_folder_name
                       in if exists_path fs apex_module_folder
                          then return (Some apex_module_folder)
                          else return None)))))"

definition allow_vndk_merge :: "env \<Rightarrow> post_injector_config \<Rightarrow> fsys \<Rightarrow> string \<Rightarrow> string \<Rightarrow> bool" where
  "allow_vndk_merge ev cfg fs apex_path apex_filename =
     (if py_in ''vndk'' apex_filename
      then (let vendor_vndk_version = get_vndk_version ev fs apex_path
            in if vendor_vndk_version = 0 then False
               else if EMULATOR_VNDK_VERSION cfg > vendor_vndk_version then False
               else True)
      else True)"

definition replace_apex_avb_public_key :: "string \<Rightarrow> string \<Rightarrow> string \<Rightarrow> (bool \<times> string) prog" where
  "replace_apex_avb_public_key apex_file_path avb_pub_key_path target_out_path =
     (let apex_filename_no_ext = fst (os_path_splitext (os_path_basename apex_file_path))
      in and_then (remove_vendor_name_from_filename apex_filename_no_ext) (\<lambda>unused.
           (let apex_pub_key_obj_path =
                  os_path_join
                    (os_path_join (os_path_join target_out_path FOLDER_NAME_OBJECTS) ''ETC'')
                    (''apex_pubkey.'' @ apex_filename_no_ext @ ''_intermediates'');
                apex_pub_file_path = os_path_join apex_pub_key_obj_path ''apex_pubkey''
            in and_then get_files (\<lambda>fs.
                 if \<not> exists_path fs apex_pub_file_path
                 then return (False, ''AVB public key file to replace not found: ''
                                       @ apex_pub_file_path)
                 else if \<not> exists_path fs avb_pub_key_path
                 then return (False, ''AVB public key file not found: '' @ avb_pub_key_path)
                 else and_then (compute_file_hash avb_pub_key_path) (\<lambda>md5.
                      and_then (copy2 avb_pub_key_path apex_pub_file_path) (\<lambda>u.
                        return (True, [])))))))"

definition inject_apex_avb_public_key :: "string \<Rightarrow> string \<Rightarrow> string \<Rightarrow> (bool \<times> string) prog" where
  "inject_apex_avb_public_key apex_file_path avb_pub_key_path target_out_path =
     and_then (replace_apex_avb_public_key apex_file_path avb_pub_key_path target_out_path)
       (\<lambda>(is_success, log_message).
          if is_success then return (is_success, log_message)
          else return (is_success, ''APEX: AVB public key replacement failed. '' @ log_message))"

text \<open>\<open>merge_apex_files\<close> returns \<open>(is_success, log_message)\<close>.\<close>

definition merge_apex_files ::
  "env \<Rightarrow> post_injector_config \<Rightarrow> string \<Rightarrow> string \<Rightarrow> string \<Rightarrow> string
     \<Rightarrow> (bool \<times> string) prog" where
  "merge_apex_files ev cfg apex_emulator_folder input_apex apex_out_file target_out_path =
     and_then get_files (\<lambda>fs.
       if CHECK_VNDK_VERSION_MISMATCH cfg
          \<and> \<not> allow_vndk_merge ev cfg fs input_apex (os_path_basename input_apex)
       then return (False, ''APEX: Emulator VNDK version is higher than vendor VNDK version. Merging not allowed.'')
       else
         and_then (extract_apex_file ev input_apex) (\<lambda>(extract_success, extract_log).
           if extract_success
           then and_then (build_merged_tree ev apex_emulator_folder input_apex) (\<lambda>u.
                and_then (generate_canned_fs_config ev) (\<lambda>u.
                and_then (move_apex_manifest_file ev (os_path_basename input_apex))
                  (\<lambda>(is_manifest_found, apex_manifest_path).
                and_then get_files (\<lambda>fs.
                  if is_manifest_found \<and> exists_path fs apex_manifest_path
                  then (if apex_manifest_path \<noteq> []
                        then and_then (copy_android_prebuilt_jar ev) (\<lambda>u.
                             and_then (create_apex_container ev apex_out_file False)
                               (\<lambda>(is_success, log_message, avb_pub_key_path).
                                  if is_success
                                  then and_then (sign_apex_file ev apex_out_file)
                                         (\<lambda>(is_success, error_message).
                                            if REPLACE_AVB_KEYS cfg
                                            then inject_apex_avb_public_key input_apex
                                                   avb_pub_key_path target_out_path
                                            else return (is_success, log_message))
                                  else return (is_success,
                                         ''APEX container creation failed. '' @ log_message)))
                        else return (False, extract_log))
                  else return (False, ''APEX manifest file not found. '' @ input_apex
                                        @ '' | apex_manifest_path: '' @ apex_manifest_path)))))
           else return (False, extract_log)))"

text \<open>
  \<open>handle_apex_modules\<close> (merge). The backup runs before the \<open>try\<close>; inside it the flag
  \<open>is_merge_success\<close> is set from the result of \<open>merge_apex_files\<close> and then again after
  the test for the output file.
\<close>

definition handle_apex_modules ::
  "env \<Rightarrow> post_injector_config \<Rightarrow> string \<Rightarrow> string \<Rightarrow> (bool \<times> string) prog" where
  "handle_apex_modules ev cfg file_path target_out_path =
     and_then (note_call (Apex_merge file_path)) (\<lambda>u.
     and_then (backup_original_apex_file file_path) (\<lambda>(apex_out_file, org_apex_file).
       try_except
         (and_then (find_emulator_apex_folder cfg target_out_path file_path)
            (\<lambda>apex_emulator_folder.
          and_then get_files (\<lambda>fs.
            case apex_emulator_folder of
              None \<Rightarrow>
                return (False, ''Error merging APEX file: '' @ file_path
                          @ ''. No emulator folder found in: '' @ target_out_path)
            | Some folder \<Rightarrow>
                if folder \<noteq> [] \<and> exists_path fs folder
                then and_then (merge_apex_files ev cfg folder file_path apex_out_file
                                 target_out_path) (\<lambda>(is_merge_success, log_message).
                     and_then get_files (\<lambda>fs.
                       if exists_path fs apex_out_file
                       then try_except
                              (and_then (replace_org_apex_file file_path apex_out_file)
                                 (\<lambda>u. return (True, log_message)))
                              (\<lambda>err. return (is_merge_success, log_message))
                       else and_then (copyfile org_apex_file file_path)
                              (\<lambda>u. return (False, log_message))))
                else return (False, ''Error merging APEX file: '' @ file_path
                               @ ''. No emulator folder found in: '' @ target_out_path))))
         (\<lambda>e. return (False, ''Unexpected error while handling APEX modules: '' @ exn_text e))))"

text \<open>\<open>create_and_sign_apex_repack_container\<close>, called with \<open>apex_file_path\<close> given.\<close>

definition create_and_sign_apex_repack_container ::
  "env \<Rightarrow> string \<Rightarrow> string \<Rightarrow> (bool \<times> string) prog" where
  "create_and_sign_apex_repack_container ev apex_out_file apex_file_path =
     and_then (copy_android_prebuilt_jar ev) (\<lambda>u.
     and_then (create_apex_container ev apex_out_file True)
       (\<lambda>(is_success, log_message, avb_pub_key_path).
          if is_success
          then and_then (sign_apex_file ev apex_out_file) (\<lambda>(is_success, error_message).
                 if is_success
                 then and_then (replace_org_apex_file apex_file_path apex_out_file)
                        (\<lambda>u. return (is_success, ''APEX signing success: '' @ apex_out_file))
                 else return (is_success, ''APEX signing failed: '' @ apex_out_file @ '' | ''
                                @ error_message))
          else return (is_success, ''APEX repack creation failed. '' @ apex_out_file @ '' | ''
                         @ log_message)))"

definition repackage_apex_file :: "env \<Rightarrow> string \<Rightarrow> (bool \<times> string) prog" where
  "repackage_apex_file ev apex_file_path =
     and_then (note_call (Apex_repack apex_file_path)) (\<lambda>u.
     and_then (backup_original_apex_file apex_file_path) (\<lambda>(apex_out_file, org_apex_file).
       try_except
         (and_then (extract_apex_file ev apex_file_path) (\<lambda>(extract_success, log_message).
            if extract_success
            then and_then (generate_canned_fs_config ev) (\<lambda>u.
                 and_then (move_apex_manifest_file ev (os_path_basename apex_file_path))
                   (\<lambda>(is_manifest_found, apex_manifest_path).
                 and_then get_files (\<lambda>fs.
                   if apex_manifest_path \<noteq> [] \<and> exists_path fs apex_manifest_path
                   then create_and_sign_apex_repack_container ev apex_out_file apex_file_path
                   else return (False, ''APEX manifest file not found after extraction: ''
                                  @ apex_manifest_path))))
            else return (False, ''APEX extraction failed. '' @ apex_file_path @ '' | ''
                           @ log_message)))
         (\<lambda>e. return (False, ''Error repackaging APEX file: '' @ apex_file_path @ '' | ''
                         @ exn_text e))))"

section \<open>Per-file worker and orchestrator\<close>

text \<open>
  The result of a worker: \<open>(error_message, inj_obj, inj_partition)\<close>. Python tests the
  slots for truth: \<open>None\<close> and the empty string count as absent.
\<close>

type_synonym file_result = "string option \<times> inj_obj option \<times> inj_partition option"

definition truthy :: "string option \<Rightarrow> bool" where
  "truthy s = (case s of None \<Rightarrow> False | Some t \<Rightarrow> t \<noteq> [])"

definition handle_app_modules :: "env \<Rightarrow> string \<Rightarrow> string option prog" where
  "handle_app_modules ev file_path =
     and_then (note_call (Apk_signing file_path)) (\<lambda>u.
     and_then (handle_apk_signing ev file_path) (\<lambda>(signing_success, subprocess_error_message).
       if \<not> signing_success
       then return (Some (''Error signing APK file: '' @ file_path @ ''|''
                            @ subprocess_error_message))
       else return None))"

definition replace_capex_with_apex :: "env \<Rightarrow> string \<Rightarrow> string prog" where
  "replace_capex_with_apex ev file_path =
     (let input_folder_path = os_path_dirname file_path;
          capex_filename = os_path_basename file_path
      in and_then (prepare_capex ev file_path input_folder_path
                     (py_replace ''.capex'' ''.apex'' capex_filename))
           (\<lambda>extracted_apex_file_path.
              if truthy extracted_apex_file_path
              then and_then (rename_file file_path (capex_filename @ ''.original_capex''))
                     (\<lambda>renamed. return (the extracted_apex_file_path))
              else return file_path))"

text \<open>
  The lock of the \<open>filelock\<close> package: acquiring it creates (or truncates) the lock file,
  releasing it leaves the file in place. Waiting for another holder is not modelled.
\<close>

definition acquire_lock :: "string \<Rightarrow> unit prog" where
  "acquire_lock lock_path = write_bytes lock_path []"

text \<open>
  Lines 359--391: the container branch of the worker. It returns the (possibly renamed)
  \<open>file_path\<close> and the \<open>error_message\<close>; a failed merge raises.
\<close>

definition handle_container ::
  "env \<Rightarrow> post_injector_config \<Rightarrow> string \<Rightarrow> string \<Rightarrow> string \<Rightarrow> nat option
     \<Rightarrow> (string \<times> string option) prog" where
  "handle_container ev cfg file_path0 filename target_out_path aosp_version =
     and_then (if endswith file_path0 ''.capex'' then replace_capex_with_apex ev file_path0
               else return file_path0) (\<lambda>file_path1.
     and_then (if py_in ''tzdata'' file_path1 \<or> py_in ''tzdata'' filename
               then rename_file file_path1 (sub_tzdata_digits filename)
               else return file_path1) (\<lambda>file_path2.
     and_then (if (case aosp_version of None \<Rightarrow> False | Some v \<Rightarrow> v > 12)
                  \<and> py_in ''bluetooth'' filename
               then rename_file file_path2 (py_replace ''bluetooth'' ''btservices'' filename)
               else return file_path2) (\<lambda>file_path.
       if ALLOW_APEX_INJECTION_MERGE cfg
          \<and> any_keyword_in (ALLOW_APEX_MERGE_KEYWORD_LIST cfg) filename
          \<and> py_in ''ALL_FILES/system/'' file_path
       then and_then
              (try_except (handle_apex_modules ev cfg file_path target_out_path)
                 (\<lambda>e. return (False, ''Exception occurred: '' @ exn_text e)))
              (\<lambda>(is_merge_success, log_message).
                 if \<not> is_merge_success
                 then raise (Raised (''Error handling merge APEX file: '' @ file_path @ ''|''
                                       @ log_message))
                 else return (file_path, None))
       else try_except
              (and_then (repackage_apex_file ev file_path) (\<lambda>(is_repack_success, log_message).
                 if \<not> is_repack_success
                 then return (file_path, Some (''Error handling repack APEX file: '' @ file_path
                                                @ ''|'' @ log_message))
                 else return (file_path, None)))
              (\<lambda>e. return (file_path, Some (''Exception occurred: '' @ exn_text e))))))"

text \<open>
  Lines 340--412: the part of the worker that runs under the lock, after the second
  look at the marker. It returns the result triple or raises.
\<close>

definition process_locked ::
  "env \<Rightarrow> post_injector_config \<Rightarrow> string \<Rightarrow> string \<Rightarrow> string \<Rightarrow> string \<Rightarrow> string
     \<Rightarrow> string list option \<Rightarrow> nat option \<Rightarrow> file_result prog" where
  "process_locked ev cfg aosp_path file_path0 partition_name target_out_path lunch_target
       pre_injector_package_list aosp_version =
     and_then get_files (\<lambda>fs.
       case get_module_type fs cfg file_path0 pre_injector_package_list of
         Inl e \<Rightarrow> raise e
       | Inr (module_type, tmp_module_type) \<Rightarrow>
           if module_type = SKIPPED
           then return (Some (''Skipped File post-inject (Keyword/Extension/Filename): ''
                                @ file_path0 @ '' | module_type: '' @ label module_type),
                        None, None)
           else
             (let filename = os_path_basename file_path0;
                  file_extension = snd (os_path_splitext file_path0)
              in and_then
                   (if module_type = APPS \<and> py_lower file_extension = ''.apk''
                    then and_then (handle_app_modules ev file_path0)
                           (\<lambda>error_message. return (file_path0, error_message))
                    else if py_lower file_extension = ''.apex''
                            \<or> py_lower file_extension = ''.capex''
                    then handle_container ev cfg file_path0 filename target_out_path aosp_version
                    else if module_type = EXECUTABLES \<and> is_elf_binary fs file_path0
                    then (if filename \<in> set (APEX_BINARY_ISOLATED_NAMESPACE_LIST cfg)
                          then and_then (note_call (Apex_add file_path0)) (\<lambda>u.
                               and_then
                                 (try_except (add_new_apex_file ev file_path0 partition_name)
                                    (\<lambda>e. return (False, ''Exception occurred: '' @ exn_text e)))
                                 (\<lambda>(is_apex_add_success, log_message).
                                    if \<not> is_apex_add_success
                                    then return (file_path0,
                                           Some (''Error adding APEX file: '' @ file_path0 @ ''|''
                                                   @ log_message))
                                    else return (file_path0, None)))
                          else return (file_path0, None))
                    else return (file_path0, None))
                   (\<lambda>(file_path, error_message).
                      if \<not> truthy error_message
                      then and_then (search_and_inject cfg partition_name module_type file_path
                                       target_out_path aosp_path lunch_target aosp_version)
                             (\<lambda>(inj_obj, inj_partition).
                                return (error_message, inj_obj, inj_partition))
                      else return (error_message, None, None))))"

text \<open>
  \<open>process_file_concurrently\<close>. The first look at the marker is outside the \<open>try\<close>; the
  second is inside, so its \<open>return\<close> passes through the \<open>finally\<close> block. An exception
  under the lock becomes the error message. \<open>check_file_is_really_injected\<close> only reads the
  file system and its result is dropped.
\<close>

definition process_file_concurrently ::
  "env \<Rightarrow> post_injector_config \<Rightarrow> string \<Rightarrow> string \<Rightarrow> string \<Rightarrow> string \<Rightarrow> string
     \<Rightarrow> string list option \<Rightarrow> nat option \<Rightarrow> file_result prog" where
  "process_file_concurrently ev cfg aosp_path file_path partition_name target_out_path
       lunch_target pre_injector_package_list aosp_version =
     (let lock_path = file_path @ ''.fmd-aecs-lock'';
          processed_marker = file_path @ ''.fmd-aecs-processed''
      in and_then get_files (\<lambda>fs.
           if exists_path fs processed_marker
           then return (Some (''File already processed: '' @ file_path), None, None)
           else try_finally
                  (try_except
                     (and_then (acquire_lock lock_path) (\<lambda>u.
                      and_then get_files (\<lambda>fs.
                        if exists_path fs processed_marker
                        then return (Some (''File already processed: '' @ file_path), None, None)
                        else process_locked ev cfg aosp_path file_path partition_name
                               target_out_path lunch_target pre_injector_package_list
                               aosp_version)))
                     (\<lambda>e. return (Some (exn_text e @ '':''), None, None)))
                  (write_bytes processed_marker [])))"

text \<open>
  \<open>cleanup_files(directory)\<close> walks the directory with \<open>os.walk\<close> and removes each
  file whose name ends in one of the two suffixes. A directory of such a name, and a
  symbolic link to one, is not among the files of the walk and stays. An \<open>os.remove\<close>
  that fails is logged and the loop goes on. The walk is taken before the first removal;
  removing a file does not change what the walk finds elsewhere.
\<close>

fun remove_each :: "string list \<Rightarrow> unit prog" where
  "remove_each [] = return ()"
| "remove_each (file_path # rest) =
     and_then (try_except (os_remove file_path) (\<lambda>e. return ())) (\<lambda>u. remove_each rest)"

definition cleanup_files :: "string \<Rightarrow> unit prog" where
  "cleanup_files directory =
     and_then get_files (\<lambda>fs.
       remove_each
         (filter (\<lambda>file_path. endswith (os_path_basename file_path) ''.fmd-aecs-lock''
                               \<or> endswith (os_path_basename file_path) ''.fmd-aecs-processed'')
            (get_all_files fs directory)))"

text \<open>
  \<open>scandir_walk(dir_path)\<close> asks \<open>entry.is_dir(follow_symlinks=False)\<close>: every entry
  that is not itself a directory is a file name, a symbolic link to a directory too.
  The caller collects the joined paths in a set, so no order is kept.
\<close>

definition scandir_walk :: "fsys \<Rightarrow> string \<Rightarrow> string list" where
  "scandir_walk fs dir_path = map fst (filter (\<lambda>(q, n). below dir_path q \<and> n \<noteq> Dir) fs)"

text \<open>
  The paths \<open>process_partition_files\<close> submits: every file of \<open>scandir_walk\<close>, its file
  name stripped, without duplicates. A missing folder makes \<open>os.scandir\<close> raise.
\<close>

definition scan_file_paths :: "fsys \<Rightarrow> string \<Rightarrow> exn + string list" where
  "scan_file_paths fs folder_path =
     (if \<not> isdir fs folder_path then Inl OSError
      else Inr (remdups (map (\<lambda>q. os_path_join (os_path_dirname q) (py_strip (os_path_basename q)))
                           (scandir_walk fs folder_path))))"

text \<open>
  The workers of one partition. The pool runs them in parallel; here they run one after
  the other in the order of submission, and the results are collected in that order.
  A worker that raises contributes the text of its exception to the error list.
\<close>

fun run_workers ::
  "(string \<Rightarrow> file_result prog) \<Rightarrow> string list
     \<Rightarrow> string list \<times> inj_obj list \<times> inj_partition list
     \<Rightarrow> (string list \<times> inj_obj list \<times> inj_partition list) prog" where
  "run_workers worker [] acc = return acc"
| "run_workers worker (file_path # rest) (error_list, inj_obj_list, inj_partition_list) =
     and_then
       (try_except
          (and_then (worker file_path) (\<lambda>(error_message, inj_obj, inj_partition).
             return (error_list @ (if truthy error_message then [the error_message] else []),
                     inj_obj_list @ (case inj_obj of None \<Rightarrow> [] | Some r \<Rightarrow> [r]),
                     inj_partition_list @ (case inj_partition of None \<Rightarrow> [] | Some r \<Rightarrow> [r]))))
          (\<lambda>exc. return (error_list @ [exn_text exc], inj_obj_list, inj_partition_list)))
       (run_workers worker rest)"

definition process_partition_files ::
  "env \<Rightarrow> post_injector_config \<Rightarrow> string \<Rightarrow> string \<Rightarrow> string \<Rightarrow> string \<Rightarrow> string list
     \<Rightarrow> nat option \<Rightarrow> (string list \<times> inj_obj list \<times> inj_partition list) prog" where
  "process_partition_files ev cfg aosp_path folder_path target_out_path lunch_target
       pre_injector_package_list aosp_version =
     and_then get_files (\<lambda>fs.
       case scan_file_paths fs folder_path of
         Inl e \<Rightarrow> raise e
       | Inr file_paths \<Rightarrow>
           and_then
             (run_workers
                (\<lambda>file_path. process_file_concurrently ev cfg aosp_path file_path
                    (os_path_basename folder_path) target_out_path lunch_target
                    (Some pre_injector_package_list) aosp_version)
                file_paths ([], [], []))
             (\<lambda>lists. and_then (cleanup_files folder_path) (\<lambda>u. return lists)))"

text \<open>An environment in which every tool reports success and changes nothing.\<close>

definition idle_env :: env where
  "idle_env = \<lparr>
     handle_apk_signing = (\<lambda>file_path. return (True, [])),
     unzip_original_apex = (\<lambda>fs file_path. None),
     get_vndk_version = (\<lambda>fs file_path. 0),
     extract_apex_file = (\<lambda>apex_file_path. return (True, [])),
     build_merged_tree = (\<lambda>apex_emulator_folder input_apex. return ()),
     generate_canned_fs_config = return (),
     move_apex_manifest_file = (\<lambda>apex_filename. return (True, [])),
     copy_android_prebuilt_jar = return (),
     create_apex_container = (\<lambda>output_file_path is_repack. return (True, [], [])),
     sign_apex_file = (\<lambda>file_path. return (True, [])),
     add_new_apex_file = (\<lambda>binary_file_path partition_name. return (True, [])) \<rparr>"

text \<open>The initial value of \<open>VENDOR_NAMES\<close> in \<open>config.py\<close>.\<close>

definition config_VENDOR_NAMES :: "string list" where
  "config_VENDOR_NAMES =
     [''Google'', ''Samsung'', ''Apple'', ''Huawei'', ''Xiaomi'', ''Oppo'', ''Vivo'', ''OnePlus'',
      ''Realme'', ''Sony'', ''LG'', ''Nokia'', ''Motorola'', ''Asus'', ''Lenovo'', ''ZTE'', ''HTC'',
      ''Honor'', ''Meizu'', ''BlackBerry'', ''Alcatel'', ''Micromax'', ''Infinix'', ''Tecno'',
      ''Lava'', ''Coolpad'', ''Panasonic'', ''Sharp'', ''LeEco'', ''Gionee'', ''Itel'', ''Karbonn'',
      ''Blu'', ''Wiko'', ''Fairphone'', ''Essential'', ''Pixel'', ''Miui'']"

text \<open>
  Example states: a vendor partition with the single artifact \<open>etc/foo.txt\<close> and an
  empty build tree; the same with the target already in the build tree.
\<close>

definition example_world :: world where
  "example_world = \<lparr>
     files = [(''/data/ALL_FILES/vendor/etc/foo.txt'', File True False ''new'')],
     calls = [], VENDOR_NAMES = config_VENDOR_NAMES \<rparr>"

definition example_world_with_target :: world where
  "example_world_with_target = \<lparr>
     files = [(''/data/ALL_FILES/vendor/etc/foo.txt'', File True False ''new''),
              (''/out/vendor/etc/foo.txt'', File True False ''old'')],
     calls = [], VENDOR_NAMES = config_VENDOR_NAMES \<rparr>"

text \<open>
  An environment in which the packaging tool writes the output container and reports
  success, and the signer reports failure; and a state with a vendor container and the
  base build's container folder.
\<close>

definition sign_failure_env :: env where
  "sign_failure_env = idle_env \<lparr>
     move_apex_manifest_file :=
       (\<lambda>apex_filename. and_then (write_bytes ''/tmp/merged/apex_manifest.pb'' ''manifest'')
                          (\<lambda>u. return (True, ''/tmp/merged/apex_manifest.pb''))),
     create_apex_container :=
       (\<lambda>output_file_path is_repack.
          and_then (write_bytes output_file_path ''merged, unsigned'')
            (\<lambda>u. return (True, ''apexer done'', ''/tmp/keys/avb.pem''))),
     sign_apex_file := (\<lambda>file_path. return (False, ''Error signing APEX file'')) \<rparr>"

definition example_apex_world :: world where
  "example_apex_world = \<lparr>
     files = [(''/data/ALL_FILES/system/apex/com.google.android.media.apex'',
                 File True False ''vendor container''),
              (''/out/apex/com.android.media/apex_manifest.pb'', File True False ''base'')],
     calls = [], VENDOR_NAMES = config_VENDOR_NAMES \<rparr>"

section \<open>Verified properties\<close>

subsection \<open>Module classifier\<close>

lemma base_module_type_not_skipped:
  "fst (base_module_type fs parent_dir p e f) \<noteq> SKIPPED"
  by (simp add: base_module_type_def)

lemma earlier_rules_range:
  "earlier_rules cfg p e f fn t = t \<or> earlier_rules cfg p e f fn t = SKIPPED"
  by (simp add: earlier_rules_def general_deny_def disable_binary_def allowed_app_keyword_def
        skipped_app_list_def skipped_app_keyword_def)

lemma already_injected_range:
  "already_injected pkl f fn m = Inr m' \<Longrightarrow> m' = m \<or> m' = SKIPPED"
  by (auto simp: already_injected_def split: if_splits option.splits)

lemma already_injected_supplied:
  "\<exists>m'. already_injected (Some packages) f fn m = Inr m'"
  by (simp add: already_injected_def)

lemma later_rules_range:
  assumes "m = t \<or> m = SKIPPED \<or> m = ETC"
  shows "later_rules cfg p e f a t m = t \<or> later_rules cfg p e f a t m = SKIPPED
           \<or> later_rules cfg p e f a t m = ETC"
proof -
  let ?m1 = "shared_library_if_not_exists cfg e f t m"
  have 1: "?m1 = t \<or> ?m1 = SKIPPED \<or> ?m1 = ETC"
    using assms by (simp add: shared_library_if_not_exists_def)
  let ?m2 = "skipped_apex_keyword cfg a f ?m1"
  have 2: "?m2 = t \<or> ?m2 = SKIPPED \<or> ?m2 = ETC"
    using 1 by (simp add: skipped_apex_keyword_def)
  let ?m3 = "allow_apex_not_in_list cfg a f ?m2"
  have 3: "?m3 = t \<or> ?m3 = SKIPPED \<or> ?m3 = ETC"
    using 2 by (simp add: allow_apex_not_in_list_def)
  let ?m4 = "allow_apex_always cfg a f ?m3"
  have 4: "?m4 = t \<or> ?m4 = SKIPPED \<or> ?m4 = ETC"
    using 3 by (simp add: allow_apex_always_def)
  let ?m5 = "disallow_app cfg ?m4"
  have 5: "?m5 = t \<or> ?m5 = SKIPPED \<or> ?m5 = ETC"
    using 4 by (simp add: disallow_app_def)
  let ?m6 = "java_libraries cfg t ?m5"
  have 6: "?m6 = t \<or> ?m6 = SKIPPED \<or> ?m6 = ETC"
    using 5 by (simp add: java_libraries_def)
  let ?m7 = "disable_misc cfg ?m6"
  have 7: "?m7 = t \<or> ?m7 = SKIPPED \<or> ?m7 = ETC"
    using 6 by (simp add: disable_misc_def)
  let ?m8 = "allow_app_always cfg e f t ?m7"
  have 8: "?m8 = t \<or> ?m8 = SKIPPED \<or> ?m8 = ETC"
    using 7 by (simp add: allow_app_always_def)
  let ?m9 = "allow_file_always cfg p f t ?m8"
  have 9: "?m9 = t \<or> ?m9 = SKIPPED \<or> ?m9 = ETC"
    using 8 by (simp add: allow_file_always_def)
  show ?thesis using 9 by (simp add: later_rules_def)
qed

lemma get_module_type_supplied:
  "\<exists>m t. get_module_type fs cfg path (Some packages) = Inr (m, t)"
proof -
  obtain t f where b: "base_module_type fs (os_path_dirname path) (py_strip path)
      (snd (os_path_splitext (py_strip path))) (os_path_basename (py_strip path)) = (t, f)"
    by (cases "base_module_type fs (os_path_dirname path) (py_strip path)
      (snd (os_path_splitext (py_strip path))) (os_path_basename (py_strip path))")
  obtain m' where "already_injected (Some packages) f
      (fst (os_path_splitext (os_path_basename (py_strip path))))
      (earlier_rules cfg (py_strip path) (snd (os_path_splitext (py_strip path))) f
         (fst (os_path_splitext (os_path_basename (py_strip path)))) t) = Inr m'"
    using already_injected_supplied by blast
  then show ?thesis
    by (simp add: get_module_type_def Let_def b)
qed

lemma get_module_type_unfold:
  assumes "base_module_type fs (os_path_dirname path) (py_strip path)
             (snd (os_path_splitext (py_strip path))) (os_path_basename (py_strip path)) = (t0, f)"
  shows "get_module_type fs cfg path pkl =
     (case already_injected pkl f (fst (os_path_splitext (os_path_basename (py_strip path))))
             (earlier_rules cfg (py_strip path) (snd (os_path_splitext (py_strip path))) f
                (fst (os_path_splitext (os_path_basename (py_strip path)))) t0) of
        Inl e \<Rightarrow> Inl e
      | Inr m \<Rightarrow> Inr (later_rules cfg (py_strip path) (snd (os_path_splitext (py_strip path))) f
                        (snd (os_path_splitext (py_strip path)) = ''.apex''
                          \<or> snd (os_path_splitext (py_strip path)) = ''.capex'') t0 m, t0))"
  using assms by (simp add: get_module_type_def Let_def)

lemma get_module_type_range:
  assumes "get_module_type fs cfg path pkl = Inr (m, t)"
  shows "t \<noteq> SKIPPED \<and> (m = t \<or> m = SKIPPED \<or> m = ETC)"
proof -
  let ?p = "py_strip path"
  let ?e = "snd (os_path_splitext ?p)"
  let ?fn = "fst (os_path_splitext (os_path_basename ?p))"
  obtain t0 f where b: "base_module_type fs (os_path_dirname path) ?p ?e (os_path_basename ?p) = (t0, f)"
    by (cases "base_module_type fs (os_path_dirname path) ?p ?e (os_path_basename ?p)")
  have t0: "t0 \<noteq> SKIPPED"
    using base_module_type_not_skipped [of fs "os_path_dirname path" ?p ?e "os_path_basename ?p"] b
    by simp
  let ?m1 = "earlier_rules cfg ?p ?e f ?fn t0"
  show ?thesis
  proof (cases "already_injected pkl f ?fn ?m1")
    case (Inl e)
    with assms show ?thesis
      unfolding get_module_type_unfold [OF b] by simp
  next
    case (Inr m2)
    have "get_module_type fs cfg path pkl
            = Inr (later_rules cfg ?p ?e f (?e = ''.apex'' \<or> ?e = ''.capex'') t0 m2, t0)"
      by (simp only: get_module_type_unfold [OF b] Inr sum.case)
    with assms have "Inr (m, t)
            = (Inr (later_rules cfg ?p ?e f (?e = ''.apex'' \<or> ?e = ''.capex'') t0 m2, t0)
                :: exn + module_type \<times> module_type)"
      by (simp only:)
    then have r: "m = later_rules cfg ?p ?e f (?e = ''.apex'' \<or> ?e = ''.capex'') t0 m2"
      and tt: "t = t0"
      by (simp_all only: sum.inject prod.inject)
    have "m2 = t0 \<or> m2 = SKIPPED \<or> m2 = ETC"
      using already_injected_range [OF Inr] earlier_rules_range [of cfg ?p ?e f ?fn t0] by auto
    from later_rules_range [OF this] r tt t0 show ?thesis by simp
  qed
qed

text \<open>
  Claim C10. For every path, file system and rule set, the classifier called with a
  package list returns a pair \<open>(final, tentative)\<close>; and whenever it returns a pair (with
  or without a package list), the tentative type is one of the seven base labels, never
  \<open>SKIPPED\<close>, and the final type is the tentative type, \<open>SKIPPED\<close> or \<open>ETC\<close>.
\<close>

theorem classifier_result_range:
  "(\<exists>m t. get_module_type fs cfg path (Some packages) = Inr (m, t))
   \<and> (\<forall>m t. get_module_type fs cfg path pre_injector_package_list = Inr (m, t)
         \<longrightarrow> t \<noteq> SKIPPED \<and> (m = t \<or> m = SKIPPED \<or> m = ETC))"
  using get_module_type_supplied get_module_type_range by blast

theorem classifier_result_range_witness:
  "get_module_type [] (empty_config\<lparr>DISABLE_BINARY_INJECTION := True\<rparr>)
      ''/data/ALL_FILES/system/bin/toybox'' (Some []) = Inr (SKIPPED, EXECUTABLES)
   \<and> EXECUTABLES \<noteq> SKIPPED
   \<and> (SKIPPED = EXECUTABLES \<or> SKIPPED = SKIPPED \<or> SKIPPED = ETC)"
proof -
  have a: "get_module_type [] (empty_config\<lparr>DISABLE_BINARY_INJECTION := True\<rparr>)
      ''/data/ALL_FILES/system/bin/toybox'' (Some []) = Inr (SKIPPED, EXECUTABLES)"
    by code_simp
  from classifier_result_range [of "[]" "empty_config\<lparr>DISABLE_BINARY_INJECTION := True\<rparr>"
      "''/data/ALL_FILES/system/bin/toybox''" "[]" "Some []"] a
  have "EXECUTABLES \<noteq> SKIPPED
        \<and> (SKIPPED = EXECUTABLES \<or> SKIPPED = SKIPPED \<or> SKIPPED = ETC)"
    by blast
  with a show ?thesis by (intro conjI) blast+
qed

lemma get_module_type_final_rule:
  assumes "get_module_type fs cfg path pkl = Inr (m, t)"
  shows "\<exists>m'. m = allow_file_always cfg (py_strip path) (classifier_file_name fs path) t m'"
proof -
  let ?p = "py_strip path"
  let ?e = "snd (os_path_splitext ?p)"
  let ?fn = "fst (os_path_splitext (os_path_basename ?p))"
  obtain t0 f where b: "base_module_type fs (os_path_dirname path) ?p ?e (os_path_basename ?p) = (t0, f)"
    by (cases "base_module_type fs (os_path_dirname path) ?p ?e (os_path_basename ?p)")
  have f: "classifier_file_name fs path = f"
    by (simp add: classifier_file_name_def Let_def b)
  let ?m1 = "earlier_rules cfg ?p ?e f ?fn t0"
  show ?thesis
  proof (cases "already_injected pkl f ?fn ?m1")
    case (Inl e)
    with assms show ?thesis
      unfolding get_module_type_unfold [OF b] by simp
  next
    case (Inr m2)
    have "get_module_type fs cfg path pkl
            = Inr (later_rules cfg ?p ?e f (?e = ''.apex'' \<or> ?e = ''.capex'') t0 m2, t0)"
      by (simp only: get_module_type_unfold [OF b] Inr sum.case)
    with assms have "Inr (m, t)
            = (Inr (later_rules cfg ?p ?e f (?e = ''.apex'' \<or> ?e = ''.capex'') t0 m2, t0)
                :: exn + module_type \<times> module_type)"
      by (simp only:)
    then have r: "m = later_rules cfg ?p ?e f (?e = ''.apex'' \<or> ?e = ''.capex'') t0 m2"
      and tt: "t = t0"
      by (simp_all only: sum.inject prod.inject)
    show ?thesis
      unfolding r tt later_rules_def f by (rule exI) (rule refl)
  qed
qed

text \<open>
  Claim C5, as the code has it. The last rule compares the classifier's working file
  name: the basename of the whitespace-stripped path, from which the container branch of
  the base classification has removed \<open>_compressed\<close> (or else \<open>_trimmed\<close>). If that
  name is in \<open>ALLOW_FILE_INJECT_ALWAYS\<close>, or the stripped path contains a keyword of
  \<open>ALLOW_FILE_INJECT_ALWAYS_KEYWORD_LIST\<close>, the final type equals the tentative type,
  whatever the earlier rules decided.
\<close>

theorem always_allow_restores_tentative:
  assumes "get_module_type fs cfg path pre_injector_package_list = Inr (m, t)"
    and "classifier_file_name fs path \<in> set (ALLOW_FILE_INJECT_ALWAYS cfg)
         \<or> any_keyword_in (ALLOW_FILE_INJECT_ALWAYS_KEYWORD_LIST cfg) (py_strip path)"
  shows "m = t"
  using get_module_type_final_rule [OF assms(1)] assms(2)
  by (auto simp: allow_file_always_def)

theorem always_allow_restores_tentative_witness:
  "get_module_type []
      (empty_config\<lparr>SKIPPED_KEYWORD_LIST := [''libfoo''],
                     ALLOW_FILE_INJECT_ALWAYS := [''libfoo.so'']\<rparr>)
      ''/data/ALL_FILES/system/lib64/libfoo.so'' (Some [])
     = Inr (SHARED_LIBRARIES, SHARED_LIBRARIES)
   \<and> classifier_file_name [] ''/data/ALL_FILES/system/lib64/libfoo.so''
       \<in> set (ALLOW_FILE_INJECT_ALWAYS
                (empty_config\<lparr>SKIPPED_KEYWORD_LIST := [''libfoo''],
                               ALLOW_FILE_INJECT_ALWAYS := [''libfoo.so'']\<rparr>))"
proof -
  let ?cfg = "empty_config\<lparr>SKIPPED_KEYWORD_LIST := [''libfoo''],
                            ALLOW_FILE_INJECT_ALWAYS := [''libfoo.so'']\<rparr>"
  let ?p = "''/data/ALL_FILES/system/lib64/libfoo.so''"
  have r: "get_module_type [] ?cfg ?p (Some []) = Inr (SHARED_LIBRARIES, SHARED_LIBRARIES)"
    by code_simp
  have h2: "classifier_file_name [] ?p \<in> set (ALLOW_FILE_INJECT_ALWAYS ?cfg)"
    by code_simp
  show ?thesis
    using r h2 always_allow_restores_tentative [OF r disjI1 [OF h2]] by simp
qed

text \<open>
  Claim C5 as stated fails for a container file whose own basename is listed: the file
  \<open>com.vendor.media_compressed.apex\<close> is in \<open>ALLOW_FILE_INJECT_ALWAYS\<close>, binary
  injection is disabled, and the result stays \<open>SKIPPED\<close> although the tentative type
  is \<open>ETC\<close>.
\<close>

theorem always_allow_basename_counterexample:
  "os_path_basename ''/data/ALL_FILES/system/apex/com.vendor.media_compressed.apex''
     \<in> set (ALLOW_FILE_INJECT_ALWAYS
              (empty_config\<lparr>ALLOW_FILE_INJECT_ALWAYS := [''com.vendor.media_compressed.apex''],
                             DISABLE_BINARY_INJECTION := True\<rparr>))
   \<and> get_module_type []
        (empty_config\<lparr>ALLOW_FILE_INJECT_ALWAYS := [''com.vendor.media_compressed.apex''],
                       DISABLE_BINARY_INJECTION := True\<rparr>)
        ''/data/ALL_FILES/system/apex/com.vendor.media_compressed.apex'' (Some [])
      = Inr (SKIPPED, ETC)"
  by code_simp

lemma classifier_file_name_plain:
  assumes "snd (os_path_splitext (py_strip path)) \<noteq> ''.apex''"
    and "snd (os_path_splitext (py_strip path)) \<noteq> ''.capex''"
  shows "classifier_file_name fs path = os_path_basename (py_strip path)"
  using assms by (simp add: classifier_file_name_def base_module_type_def Let_def)




text \<open>
  The sub-string test of line 77 at a file that cannot be read and lies in no \<open>bin\<close>
  directory: the tentative type is \<open>EXECUTABLES\<close>.
\<close>

lemma unreadable_file_with_bin_in_directory_name:
  "read_bytes [] ''/data/ALL_FILES/system/cabinet/tool'' = None
   \<and> get_module_type [] empty_config ''/data/ALL_FILES/system/cabinet/tool'' (Some [])
       = Inr (EXECUTABLES, EXECUTABLES)"
  by code_simp

text \<open>
  Without a package list (the parameter's default \<open>None\<close>) the loop over the list raises
  \<open>TypeError\<close> for a shared library.
\<close>

lemma get_module_type_without_package_list:
  "get_module_type [] empty_config ''/data/ALL_FILES/system/lib64/libfoo.so'' None
     = Inl TypeError"
  by code_simp

subsection \<open>Object-cache matcher\<close>








text \<open>
  The second search of \<open>indirect_injection\<close> (lines 511--518). The artifact
  \<open>libfoo.samsung.so\<close> is a 64-bit shared library. The first search, with the
  artifact's path, turns the 32-bit \<open>libfoo.so\<close> down and finds nothing. The second
  search is handed the vendor-stripped path \<open>libfoo.so\<close>, which names no file, so
  \<open>check_file_compatibility\<close> takes the path for no ELF file and compares no word
  sizes: the 32-bit candidate is returned and overwritten with the 64-bit artifact.
\<close>

lemma vendor_stripped_search_compares_no_word_size:
  "search_original_file_in_obj
     [(''/data/ALL_FILES/system/lib64/libfoo.samsung.so'',
       File True False (ELF_MAGIC @ [CHR 0x02])),
      (''/out/system/lib64/libfoo.samsung.so'', File True False ''old''),
      (''/out/obj/SHARED_LIBRARIES/libfoo_intermediates/libfoo.so'',
       File True False (ELF_MAGIC @ [CHR 0x01]))]
     empty_config ''system'' SHARED_LIBRARIES
     ''/data/ALL_FILES/system/lib64/libfoo.samsung.so'' ''libfoo.samsung.so'' ''/out/'' = None
   \<and> fst (remove_vendor_name_from_path ''/data/ALL_FILES/system/lib64/libfoo.samsung.so''
            \<lparr>files = [], calls = [], VENDOR_NAMES = config_VENDOR_NAMES\<rparr>)
       = Inr ''/data/ALL_FILES/system/lib64/libfoo.so''
   \<and> search_original_file_in_obj
     [(''/data/ALL_FILES/system/lib64/libfoo.samsung.so'',
       File True False (ELF_MAGIC @ [CHR 0x02])),
      (''/out/system/lib64/libfoo.samsung.so'', File True False ''old''),
      (''/out/obj/SHARED_LIBRARIES/libfoo_intermediates/libfoo.so'',
       File True False (ELF_MAGIC @ [CHR 0x01]))]
     empty_config ''system'' SHARED_LIBRARIES
     ''/data/ALL_FILES/system/lib64/libfoo.so'' ''libfoo.so'' ''/out/''
     = Some [''/out/obj/SHARED_LIBRARIES/libfoo_intermediates/libfoo.so'']
   \<and> (case indirect_injection empty_config ''/out/system/lib64/libfoo.samsung.so''
             ''libfoo.samsung.so'' ''/out/'' ''system'' SHARED_LIBRARIES
             ''/data/ALL_FILES/system/lib64/libfoo.samsung.so'' None ''/aosp/'' (Some 13)
             \<lparr>files =
                [(''/data/ALL_FILES/system/lib64/libfoo.samsung.so'',
                  File True False (ELF_MAGIC @ [CHR 0x02])),
                 (''/out/system/lib64/libfoo.samsung.so'', File True False ''old''),
                 (''/out/obj/SHARED_LIBRARIES/libfoo_intermediates/libfoo.so'',
                  File True False (ELF_MAGIC @ [CHR 0x01]))],
              calls = [], VENDOR_NAMES = config_VENDOR_NAMES\<rparr> of
         (r, w) \<Rightarrow>
           r = Inr (Some (''/data/ALL_FILES/system/lib64/libfoo.samsung.so'',
                          Some ''/out/obj/SHARED_LIBRARIES/libfoo_intermediates/libfoo.so'',
                          SHARED_LIBRARIES),
                    None, Some True)
           \<and> check_binary_architecture (files w)
                 ''/out/obj/SHARED_LIBRARIES/libfoo_intermediates/libfoo.so'' = Bits64)"
  by code_simp

subsection \<open>Routing of candidates under the container namespace\<close>

text \<open>
  Claim C9 at a pure binary. The source \<open>tool\<close> has module type \<open>EXECUTABLES\<close> and the
  candidate lies under \<open>/apex/\<close>: the copy goes to \<open>/etc/tool\<close>, nothing is written to
  \<open>/bin/tool\<close>, and the candidate keeps its bytes.
\<close>

theorem executable_apex_candidate_routed_to_etc:
  "apex_new_file_path EXECUTABLES ''tool'' = ''/etc/tool''
   \<and> (case inject_file_into_obj empty_config ''/data/ALL_FILES/system/bin/tool''
             ''/out/obj/EXECUTABLES/apex/com.android.x/bin/tool'' EXECUTABLES ''/aosp/''
             ''system'' (Some 12)
             \<lparr>files = [(''/data/ALL_FILES/system/bin/tool'', File True True ''new''),
                       (''/out/obj/EXECUTABLES/apex/com.android.x/bin/tool'',
                          File True True ''old'')],
               calls = [], VENDOR_NAMES = []\<rparr> of
         (r, w) \<Rightarrow> r = Inr True
           \<and> lookup (files w) ''/etc/tool'' = Some (File True False ''new'')
           \<and> lookup (files w) ''/bin/tool'' = None
           \<and> lookup (files w) ''/out/obj/EXECUTABLES/apex/com.android.x/bin/tool''
               = Some (File True True ''old''))"
  by code_simp

text \<open>No module type reaches the \<open>/bin/\<close> branch: no label is the string \<open>BINARY\<close>.\<close>

lemma apex_new_file_path_cases:
  "apex_new_file_path module_type file_name =
     (if module_type = JAVA_LIBRARIES then ''/system/framework/'' @ file_name
      else ''/etc/'' @ file_name)"
  by (cases module_type) (simp_all add: apex_new_file_path_def)

subsection \<open>Per-file worker\<close>

lemma lookup_store: "lookup (store p v fs) q = (if q = p then Some v else lookup fs q)"
  by (induction fs) (auto simp: lookup_def)

lemma resolve_store_final_path:
  "resolve (store (final_path fs n p) (File r x c) fs) (Suc n) p = Some (File r x c)"
proof (induction n arbitrary: p)
  case 0
  show ?case by (simp add: lookup_store)
next
  case (Suc n)
  show ?case
  proof (cases "lookup fs p")
    case None
    then show ?thesis by (simp add: lookup_store)
  next
    case (Some nd)
    show ?thesis
    proof (cases nd)
      case (File r' x' c')
      with Some show ?thesis by (simp add: lookup_store)
    next
      case Dir
      with Some show ?thesis by (simp add: lookup_store)
    next
      case (Symlink t)
      show ?thesis
      proof (cases "p = final_path fs n t")
        case True
        with Some Symlink show ?thesis by (simp add: lookup_store)
      next
        case False
        have "resolve (store (final_path fs n t) (File r x c) fs) (Suc (Suc n)) p
              = resolve (store (final_path fs n t) (File r x c) fs) (Suc n) t"
          using Some Symlink False by (simp add: lookup_store)
        with Suc.IH [of t] Some Symlink show ?thesis by simp
      qed
    qed
  qed
qed

lemma write_bytes_result:
  "\<exists>r x. write_bytes p bytes w
     = (Inr (), w\<lparr>files := store (final_path (files w) 40 p) (File r x bytes) (files w)\<rparr>)"
  by (auto simp: write_bytes_def Let_def split: option.splits node.splits)

lemma write_bytes_isfile:
  "fst (write_bytes p bytes w) = Inr () \<and> isfile (files (snd (write_bytes p bytes w))) p"
proof -
  obtain r x where e: "write_bytes p bytes w
     = (Inr (), w\<lparr>files := store (final_path (files w) 40 p) (File r x bytes) (files w)\<rparr>)"
    using write_bytes_result by blast
  have "resolve (store (final_path (files w) 40 p) (File r x bytes) (files w)) 41 p
          = Some (File r x bytes)"
    using resolve_store_final_path [of "files w" 40 p r x bytes] by simp
  then show ?thesis
    by (simp add: e isfile_def)
qed

lemma try_finally_write_bytes:
  "try_finally m (write_bytes p bytes) w = (fst (m w), snd (write_bytes p bytes (snd (m w))))"
proof -
  obtain r x where e: "write_bytes p bytes (snd (m w))
     = (Inr (), (snd (m w))\<lparr>files := store (final_path (files (snd (m w))) 40 p) (File r x bytes)
                                         (files (snd (m w)))\<rparr>)"
    using write_bytes_result by blast
  show ?thesis
    using e by (cases "m w") (auto simp: try_finally_def)
qed

lemma try_except_return:
  assumes "\<And>e w'. \<exists>x. fst (h e w') = Inr x"
  shows "\<exists>x. fst (try_except m h w) = Inr x"
proof (cases "m w")
  case (Pair r w')
  then show ?thesis
    using assms by (cases r) (auto simp: try_except_def)
qed

text \<open>
  Claim C6. When the marker is absent at the first look, the worker returns a result (it
  does not raise) and the marker file exists afterwards, whatever the attempt did: the
  marker is written after a normal result, after a recorded error and after an exception
  under the lock alike. When the marker is present, the worker returns the
  already-processed result and leaves the state as it was: no lock, no classification,
  no injection.
\<close>

theorem marker_written_or_skipped:
  "(\<not> exists_path (files w) (file_path @ ''.fmd-aecs-processed'') \<longrightarrow>
      (\<exists>result. fst (process_file_concurrently ev cfg aosp_path file_path partition_name
                        target_out_path lunch_target pre_injector_package_list aosp_version w)
                 = Inr result)
      \<and> isfile (files (snd (process_file_concurrently ev cfg aosp_path file_path partition_name
                               target_out_path lunch_target pre_injector_package_list
                               aosp_version w)))
           (file_path @ ''.fmd-aecs-processed''))
   \<and> (exists_path (files w) (file_path @ ''.fmd-aecs-processed'') \<longrightarrow>
        process_file_concurrently ev cfg aosp_path file_path partition_name target_out_path
          lunch_target pre_injector_package_list aosp_version w
        = (Inr (Some (''File already processed: '' @ file_path), None, None), w))"
proof (intro conjI impI)
  assume a: "\<not> exists_path (files w) (file_path @ ''.fmd-aecs-processed'')"
  let ?marker = "file_path @ ''.fmd-aecs-processed''"
  let ?body = "try_except
                 (and_then (acquire_lock (file_path @ ''.fmd-aecs-lock'')) (\<lambda>u.
                  and_then get_files (\<lambda>fs.
                    if exists_path fs ?marker
                    then return (Some (''File already processed: '' @ file_path), None, None)
                    else process_locked ev cfg aosp_path file_path partition_name
                           target_out_path lunch_target pre_injector_package_list
                           aosp_version)))
                 (\<lambda>e. return (Some (exn_text e @ '':''), None, None))"
  have p: "process_file_concurrently ev cfg aosp_path file_path partition_name target_out_path
             lunch_target pre_injector_package_list aosp_version w
           = try_finally ?body (write_bytes ?marker []) w"
    using a by (simp add: process_file_concurrently_def Let_def and_then_def get_files_def)
  show "\<exists>result. fst (process_file_concurrently ev cfg aosp_path file_path partition_name
                        target_out_path lunch_target pre_injector_package_list aosp_version w)
                 = Inr result"
    unfolding p try_finally_write_bytes fst_conv
    by (rule try_except_return) (simp add: return_def)
  show "isfile (files (snd (process_file_concurrently ev cfg aosp_path file_path partition_name
                               target_out_path lunch_target pre_injector_package_list
                               aosp_version w))) ?marker"
    unfolding p try_finally_write_bytes using write_bytes_isfile by simp
next
  assume "exists_path (files w) (file_path @ ''.fmd-aecs-processed'')"
  then show "process_file_concurrently ev cfg aosp_path file_path partition_name target_out_path
          lunch_target pre_injector_package_list aosp_version w
        = (Inr (Some (''File already processed: '' @ file_path), None, None), w)"
    by (simp add: process_file_concurrently_def Let_def and_then_def get_files_def return_def)
qed

lemma filter_store:
  "\<not> P p \<Longrightarrow> filter (\<lambda>(q, n). P q) (store p v fs) = filter (\<lambda>(q, n). P q) fs"
  by (induction fs) auto

lemma process_locked_skipped:
  assumes "get_module_type (files w) cfg file_path pkl = Inr (SKIPPED, t)"
  shows "process_locked ev cfg aosp_path file_path partition_name target_out_path lunch_target
           pkl aosp_version w
         = (Inr (Some (''Skipped File post-inject (Keyword/Extension/Filename): ''
                         @ file_path @ '' | module_type: '' @ label SKIPPED), None, None), w)"
  using assms by (simp add: process_locked_def and_then_def get_files_def return_def)

text \<open>
  Claim C3. When the classification the worker computes (under the lock) is \<open>SKIPPED\<close>,
  the worker returns an error message with both injection slots empty, no injection and no
  tool call is made, and the file system is as before except for the two entries the lock
  and the marker are written to.
\<close>

theorem skipped_file_not_injected:
  assumes "get_module_type (files (snd (acquire_lock (file_path @ ''.fmd-aecs-lock'') w))) cfg
             file_path pre_injector_package_list = Inr (SKIPPED, t)"
  shows "case process_file_concurrently ev cfg aosp_path file_path partition_name
                target_out_path lunch_target pre_injector_package_list aosp_version w of
           (r, w') \<Rightarrow>
             (\<exists>message. r = Inr (Some message, None, None))
             \<and> calls w' = calls w
             \<and> VENDOR_NAMES w' = VENDOR_NAMES w
             \<and> filter (\<lambda>(q, n). q \<noteq> final_path (files w) 40 (file_path @ ''.fmd-aecs-lock'')
                          \<and> q \<noteq> final_path
                                  (files (snd (acquire_lock (file_path @ ''.fmd-aecs-lock'') w)))
                                  40 (file_path @ ''.fmd-aecs-processed''))
                 (files w')
               = filter (\<lambda>(q, n). q \<noteq> final_path (files w) 40 (file_path @ ''.fmd-aecs-lock'')
                          \<and> q \<noteq> final_path
                                  (files (snd (acquire_lock (file_path @ ''.fmd-aecs-lock'') w)))
                                  40 (file_path @ ''.fmd-aecs-processed''))
                 (files w)"
proof (cases "exists_path (files w) (file_path @ ''.fmd-aecs-processed'')")
  case True
  then show ?thesis
    by (simp add: process_file_concurrently_def Let_def and_then_def get_files_def return_def)
next
  case False
  let ?lock = "file_path @ ''.fmd-aecs-lock''"
  let ?marker = "file_path @ ''.fmd-aecs-processed''"
  let ?ql = "final_path (files w) 40 ?lock"
  obtain r x where l: "acquire_lock ?lock w
      = (Inr (), w\<lparr>files := store ?ql (File r x []) (files w)\<rparr>)"
    unfolding acquire_lock_def using write_bytes_result by blast
  let ?w1 = "w\<lparr>files := store ?ql (File r x []) (files w)\<rparr>"
  let ?qm = "final_path (files ?w1) 40 ?marker"
  have cls: "get_module_type (files ?w1) cfg file_path pre_injector_package_list = Inr (SKIPPED, t)"
    using assms l by simp
  let ?body = "try_except
                 (and_then (acquire_lock ?lock) (\<lambda>u.
                  and_then get_files (\<lambda>fs.
                    if exists_path fs ?marker
                    then return (Some (''File already processed: '' @ file_path), None, None)
                    else process_locked ev cfg aosp_path file_path partition_name
                           target_out_path lunch_target pre_injector_package_list
                           aosp_version)))
                 (\<lambda>e. return (Some (exn_text e @ '':''), None, None))"
  have b: "\<exists>message. ?body w = (Inr (Some message, None, None), ?w1)"
    using process_locked_skipped [OF cls, of ev aosp_path partition_name target_out_path
        lunch_target aosp_version]
    by (simp add: try_except_def and_then_def l get_files_def return_def)
  then obtain message where b': "?body w = (Inr (Some message, None, None), ?w1)"
    by blast
  obtain r' x' where m: "write_bytes ?marker [] ?w1
      = (Inr (), ?w1\<lparr>files := store ?qm (File r' x' []) (files ?w1)\<rparr>)"
    using write_bytes_result by blast
  have p: "process_file_concurrently ev cfg aosp_path file_path partition_name target_out_path
             lunch_target pre_injector_package_list aosp_version w
           = try_finally ?body (write_bytes ?marker []) w"
    using False by (simp add: process_file_concurrently_def Let_def and_then_def get_files_def)
  have res: "process_file_concurrently ev cfg aosp_path file_path partition_name target_out_path
             lunch_target pre_injector_package_list aosp_version w
           = (Inr (Some message, None, None),
              ?w1\<lparr>files := store ?qm (File r' x' []) (files ?w1)\<rparr>)"
    unfolding p try_finally_write_bytes b' by (simp add: m)
  have f: "filter (\<lambda>(q, n). q \<noteq> ?ql \<and> q \<noteq> ?qm) (store ?qm (File r' x' []) (store ?ql (File r x []) (files w)))
           = filter (\<lambda>(q, n). q \<noteq> ?ql \<and> q \<noteq> ?qm) (files w)"
    using filter_store [of "\<lambda>q. q \<noteq> ?ql \<and> q \<noteq> ?qm" ?qm]
      filter_store [of "\<lambda>q. q \<noteq> ?ql \<and> q \<noteq> ?qm" ?ql]
    by simp
  show ?thesis
    unfolding res using f l by simp
qed

lemma and_then_Inr:
  assumes "and_then m f w = (Inr y, w')"
  shows "\<exists>x w1. m w = (Inr x, w1) \<and> f x w1 = (Inr y, w')"
proof (cases "m w")
  case (Pair r w1)
  with assms show ?thesis
    by (cases r) (auto simp: and_then_def)
qed

lemma try_except_Inr:
  assumes "try_except m h w = (Inr y, w')"
  shows "m w = (Inr y, w') \<or> (\<exists>e w1. h e w1 = (Inr y, w'))"
proof (cases "m w")
  case (Pair r w1)
  with assms show ?thesis
    by (cases r) (auto simp: try_except_def)
qed

lemma process_locked_error:
  assumes "process_locked ev cfg aosp_path file_path partition_name target_out_path lunch_target
             pkl aosp_version w = (Inr (error_message, inj_obj, inj_partition), w')"
    and "truthy error_message"
  shows "inj_obj = None \<and> inj_partition = None"
proof (cases "get_module_type (files w) cfg file_path pkl")
  case (Inl e)
  with assms(1) show ?thesis
    by (simp add: process_locked_def and_then_def get_files_def raise_def)
next
  case (Inr mt)
  obtain module_type tmp_module_type where mt: "mt = (module_type, tmp_module_type)"
    by (cases mt)
  show ?thesis
  proof (cases "module_type = SKIPPED")
    case True
    with assms(1) Inr mt show ?thesis
      by (simp add: process_locked_def and_then_def get_files_def return_def)
  next
    case False
    from assms(1) Inr mt False obtain pre where
      "and_then pre
         (\<lambda>(file_path', error_message').
            if \<not> truthy error_message'
            then and_then (search_and_inject cfg partition_name module_type file_path'
                             target_out_path aosp_path lunch_target aosp_version)
                   (\<lambda>(inj_obj, inj_partition). return (error_message', inj_obj, inj_partition))
            else return (error_message', None, None)) w
       = (Inr (error_message, inj_obj, inj_partition), w')"
      by (simp add: process_locked_def and_then_def [of get_files] get_files_def Let_def)
    from and_then_Inr [OF this] obtain fp em w1 where
      k: "(if \<not> truthy em
           then and_then (search_and_inject cfg partition_name module_type fp
                            target_out_path aosp_path lunch_target aosp_version)
                  (\<lambda>(inj_obj, inj_partition). return (em, inj_obj, inj_partition))
           else return (em, None, None)) w1
          = (Inr (error_message, inj_obj, inj_partition), w')"
      by auto
    show ?thesis
    proof (cases "truthy em")
      case True
      with k show ?thesis by (simp add: return_def)
    next
      case False
      with k have "and_then (search_and_inject cfg partition_name module_type fp
                            target_out_path aosp_path lunch_target aosp_version)
                  (\<lambda>(inj_obj, inj_partition). return (em, inj_obj, inj_partition)) w1
          = (Inr (error_message, inj_obj, inj_partition), w')"
        by simp
      from and_then_Inr [OF this] have "error_message = em"
        by (auto simp: return_def)
      with False assms(2) show ?thesis by simp
    qed
  qed
qed

text \<open>
  Claim C1, as the code has it. A result never carries an error string together with an
  injection record: when the error slot holds a non-empty string, the indirect slot and the
  direct slot are both empty.
\<close>

theorem error_excludes_injection_records:
  assumes "process_file_concurrently ev cfg aosp_path file_path partition_name target_out_path
             lunch_target pre_injector_package_list aosp_version w
           = (Inr (error_message, inj_obj, inj_partition), w')"
    and "truthy error_message"
  shows "inj_obj = None \<and> inj_partition = None"
proof (cases "exists_path (files w) (file_path @ ''.fmd-aecs-processed'')")
  case True
  with assms(1) show ?thesis
    by (simp add: process_file_concurrently_def Let_def and_then_def get_files_def return_def)
next
  case False
  let ?marker = "file_path @ ''.fmd-aecs-processed''"
  let ?inner = "and_then (acquire_lock (file_path @ ''.fmd-aecs-lock'')) (\<lambda>u.
                  and_then get_files (\<lambda>fs.
                    if exists_path fs ?marker
                    then return (Some (''File already processed: '' @ file_path), None, None)
                    else process_locked ev cfg aosp_path file_path partition_name
                           target_out_path lunch_target pre_injector_package_list
                           aosp_version))"
  let ?handler = "\<lambda>e. return (Some (exn_text e @ '':''), None, None)"
  have p: "process_file_concurrently ev cfg aosp_path file_path partition_name target_out_path
             lunch_target pre_injector_package_list aosp_version w
           = try_finally (try_except ?inner ?handler) (write_bytes ?marker []) w"
    using False by (simp add: process_file_concurrently_def Let_def and_then_def get_files_def)
  from assms(1) have "fst (try_except ?inner ?handler w)
                      = Inr (error_message, inj_obj, inj_partition)"
    unfolding p try_finally_write_bytes by simp
  then obtain w2 where "try_except ?inner ?handler w
                      = (Inr (error_message, inj_obj, inj_partition), w2)"
    by (cases "try_except ?inner ?handler w") simp
  from try_except_Inr [OF this]
  show ?thesis
  proof
    assume "?inner w = (Inr (error_message, inj_obj, inj_partition), w2)"
    from and_then_Inr [OF this] obtain w3 where
      "and_then get_files (\<lambda>fs.
                    if exists_path fs ?marker
                    then return (Some (''File already processed: '' @ file_path), None, None)
                    else process_locked ev cfg aosp_path file_path partition_name
                           target_out_path lunch_target pre_injector_package_list
                           aosp_version) w3
       = (Inr (error_message, inj_obj, inj_partition), w2)"
      by blast
    then have "(if exists_path (files w3) ?marker
                then return (Some (''File already processed: '' @ file_path), None, None)
                else process_locked ev cfg aosp_path file_path partition_name
                       target_out_path lunch_target pre_injector_package_list aosp_version) w3
       = (Inr (error_message, inj_obj, inj_partition), w2)"
      by (simp add: and_then_def get_files_def)
    then show ?thesis
      using process_locked_error [OF _ assms(2)]
      by (cases "exists_path (files w3) ?marker") (auto simp: return_def)
  next
    assume "\<exists>e w1. ?handler e w1 = (Inr (error_message, inj_obj, inj_partition), w2)"
    then show ?thesis by (auto simp: return_def)
  qed
qed

theorem marker_written_or_skipped_witness:
  "\<not> exists_path (files example_world) (''/data/ALL_FILES/vendor/etc/foo.txt'' @ ''.fmd-aecs-processed'')
   \<and> isfile (files (snd (process_file_concurrently idle_env empty_config ''/aosp/''
                           ''/data/ALL_FILES/vendor/etc/foo.txt'' ''vendor'' ''/out/''
                           ''sdk_phone64_arm64-userdebug'' (Some []) (Some 13) example_world)))
       (''/data/ALL_FILES/vendor/etc/foo.txt'' @ ''.fmd-aecs-processed'')
   \<and> exists_path (files (snd (process_file_concurrently idle_env empty_config ''/aosp/''
                           ''/data/ALL_FILES/vendor/etc/foo.txt'' ''vendor'' ''/out/''
                           ''sdk_phone64_arm64-userdebug'' (Some []) (Some 13) example_world)))
       (''/data/ALL_FILES/vendor/etc/foo.txt'' @ ''.fmd-aecs-processed'')"
proof -
  have a: "\<not> exists_path (files example_world)
               (''/data/ALL_FILES/vendor/etc/foo.txt'' @ ''.fmd-aecs-processed'')"
    by code_simp
  from marker_written_or_skipped [of example_world "''/data/ALL_FILES/vendor/etc/foo.txt''"
      idle_env empty_config "''/aosp/''" "''vendor''" "''/out/''"
      "''sdk_phone64_arm64-userdebug''" "Some []" "Some 13"] a
  have b: "isfile (files (snd (process_file_concurrently idle_env empty_config ''/aosp/''
                           ''/data/ALL_FILES/vendor/etc/foo.txt'' ''vendor'' ''/out/''
                           ''sdk_phone64_arm64-userdebug'' (Some []) (Some 13) example_world)))
       (''/data/ALL_FILES/vendor/etc/foo.txt'' @ ''.fmd-aecs-processed'')"
    by blast
  then have "exists_path (files (snd (process_file_concurrently idle_env empty_config ''/aosp/''
                           ''/data/ALL_FILES/vendor/etc/foo.txt'' ''vendor'' ''/out/''
                           ''sdk_phone64_arm64-userdebug'' (Some []) (Some 13) example_world)))
       (''/data/ALL_FILES/vendor/etc/foo.txt'' @ ''.fmd-aecs-processed'')"
    by (simp add: exists_path_def)
  with a b show ?thesis by (intro conjI)
qed

theorem skipped_file_not_injected_witness:
  "get_module_type
     (files (snd (acquire_lock (''/data/ALL_FILES/vendor/etc/foo.txt'' @ ''.fmd-aecs-lock'')
                    example_world)))
     (empty_config\<lparr>SKIPPED_KEYWORD_LIST := [''foo'']\<rparr>)
     ''/data/ALL_FILES/vendor/etc/foo.txt'' (Some []) = Inr (SKIPPED, ETC)
   \<and> calls (snd (process_file_concurrently idle_env
                   (empty_config\<lparr>SKIPPED_KEYWORD_LIST := [''foo'']\<rparr>) ''/aosp/''
                   ''/data/ALL_FILES/vendor/etc/foo.txt'' ''vendor'' ''/out/''
                   ''sdk_phone64_arm64-userdebug'' (Some []) (Some 13) example_world))
     = calls example_world"
proof -
  have h: "get_module_type
     (files (snd (acquire_lock (''/data/ALL_FILES/vendor/etc/foo.txt'' @ ''.fmd-aecs-lock'')
                    example_world)))
     (empty_config\<lparr>SKIPPED_KEYWORD_LIST := [''foo'']\<rparr>)
     ''/data/ALL_FILES/vendor/etc/foo.txt'' (Some []) = Inr (SKIPPED, ETC)"
    by code_simp
  from skipped_file_not_injected [OF h, of idle_env "''/aosp/''" "''vendor''" "''/out/''"
      "''sdk_phone64_arm64-userdebug''" "Some 13"]
  have "calls (snd (process_file_concurrently idle_env
                   (empty_config\<lparr>SKIPPED_KEYWORD_LIST := [''foo'']\<rparr>) ''/aosp/''
                   ''/data/ALL_FILES/vendor/etc/foo.txt'' ''vendor'' ''/out/''
                   ''sdk_phone64_arm64-userdebug'' (Some []) (Some 13) example_world))
     = calls example_world"
    by (simp add: case_prod_unfold)
  with h show ?thesis by (intro conjI)
qed

theorem error_excludes_injection_records_witness:
  "process_file_concurrently idle_env (empty_config\<lparr>SKIPPED_KEYWORD_LIST := [''foo'']\<rparr>)
      ''/aosp/'' ''/data/ALL_FILES/vendor/etc/foo.txt'' ''vendor'' ''/out/''
      ''sdk_phone64_arm64-userdebug'' (Some []) (Some 13) example_world
   = (Inr (Some (''Skipped File post-inject (Keyword/Extension/Filename): ''
                   @ ''/data/ALL_FILES/vendor/etc/foo.txt'' @ '' | module_type: SKIPPED''),
           None, None),
      example_world\<lparr>files :=
        [(''/data/ALL_FILES/vendor/etc/foo.txt'', File True False ''new''),
         (''/data/ALL_FILES/vendor/etc/foo.txt.fmd-aecs-lock'', File True False []),
         (''/data/ALL_FILES/vendor/etc/foo.txt.fmd-aecs-processed'', File True False [])]\<rparr>)
   \<and> truthy (Some (''Skipped File post-inject (Keyword/Extension/Filename): ''
                   @ ''/data/ALL_FILES/vendor/etc/foo.txt'' @ '' | module_type: SKIPPED''))"
proof -
  have r: "process_file_concurrently idle_env (empty_config\<lparr>SKIPPED_KEYWORD_LIST := [''foo'']\<rparr>)
      ''/aosp/'' ''/data/ALL_FILES/vendor/etc/foo.txt'' ''vendor'' ''/out/''
      ''sdk_phone64_arm64-userdebug'' (Some []) (Some 13) example_world
   = (Inr (Some (''Skipped File post-inject (Keyword/Extension/Filename): ''
                   @ ''/data/ALL_FILES/vendor/etc/foo.txt'' @ '' | module_type: SKIPPED''),
           None, None),
      example_world\<lparr>files :=
        [(''/data/ALL_FILES/vendor/etc/foo.txt'', File True False ''new''),
         (''/data/ALL_FILES/vendor/etc/foo.txt.fmd-aecs-lock'', File True False []),
         (''/data/ALL_FILES/vendor/etc/foo.txt.fmd-aecs-processed'', File True False [])]\<rparr>)"
    by code_simp
  have t: "truthy (Some (''Skipped File post-inject (Keyword/Extension/Filename): ''
                   @ ''/data/ALL_FILES/vendor/etc/foo.txt'' @ '' | module_type: SKIPPED''))"
    by code_simp
  from error_excludes_injection_records [OF r t] r t show ?thesis by (intro conjI)
qed

text \<open>
  Claim C1 as stated fails with no outcome at all: the target exists, the extension
  \<open>.txt\<close> is in \<open>SKIPPED_FILE_EXTENSION_LIST_INDIRECT_INJECTION\<close>, and the result holds
  neither an error string nor an injection record.
\<close>

theorem no_outcome_counterexample:
  "fst (process_file_concurrently idle_env
          (empty_config\<lparr>SKIPPED_FILE_EXTENSION_LIST_INDIRECT_INJECTION := [''.txt'']\<rparr>)
          ''/aosp/'' ''/data/ALL_FILES/vendor/etc/foo.txt'' ''vendor'' ''/out/''
          ''sdk_phone64_arm64-userdebug'' (Some []) (Some 13) example_world_with_target)
   = Inr (None, None, None)"
  by code_simp

text \<open>
  The fallback: the target exists and the object cache holds no original. The indirect
  slot keeps the record of the failed search and the fallback direct injection fills the
  direct slot, so the result holds both.
\<close>

lemma fallback_fills_both_slots:
  "fst (process_file_concurrently idle_env empty_config
          ''/aosp/'' ''/data/ALL_FILES/vendor/etc/foo.txt'' ''vendor'' ''/out/''
          ''sdk_phone64_arm64-userdebug'' (Some []) (Some 13) example_world_with_target)
   = Inr (None,
          Some (''Original file not found for indirect injection: ''
                  @ ''/data/ALL_FILES/vendor/etc/foo.txt'' @ '' | '' @ ''foo.txt'', None, ETC),
          Some (''/data/ALL_FILES/vendor/etc/foo.txt'', ''/out/vendor/etc/foo.txt'', ETC))"
  by code_simp


subsection \<open>Orchestrator\<close>

lemma basename_append_suffix:
  assumes "CHR ''/'' \<notin> set s"
  shows "os_path_basename (p @ s) = os_path_basename p @ s"
proof -
  have "takeWhile (\<lambda>c. c \<noteq> CHR ''/'') (rev s @ rev p)
        = rev s @ takeWhile (\<lambda>c. c \<noteq> CHR ''/'') (rev p)"
    using assms by (intro takeWhile_append2) auto
  then show ?thesis
    by (simp add: os_path_basename_def)
qed

lemma endswith_append: "endswith (a @ s) s"
  by (simp add: endswith_def)

text \<open>The cleanup pass: what the removals leave and what they take.\<close>

lemma lookup_delete: "lookup (delete p fs) k = (if k = p then None else lookup fs k)"
  by (induction fs) (auto simp: lookup_def delete_def)

lemma try_remove:
  "\<exists>fs'. try_except (os_remove p) (\<lambda>e. return ()) w = (Inr (), w\<lparr>files := fs'\<rparr>)
         \<and> (fs' = files w \<or> fs' = delete p (files w))
         \<and> (lookup (files w) p \<noteq> Some Dir \<longrightarrow> lookup fs' p = None)"
proof (cases "lookup (files w) p")
  case None
  then show ?thesis
    by (intro exI [of _ "files w"]) (simp add: try_except_def os_remove_def return_def)
next
  case (Some nd)
  show ?thesis
  proof (cases nd)
    case (File r x c)
    with Some show ?thesis
      by (intro exI [of _ "delete p (files w)"])
         (simp add: try_except_def os_remove_def return_def lookup_delete)
  next
    case (Symlink t)
    with Some show ?thesis
      by (intro exI [of _ "delete p (files w)"])
         (simp add: try_except_def os_remove_def return_def lookup_delete)
  next
    case Dir
    with Some show ?thesis
      by (intro exI [of _ "files w"]) (simp add: try_except_def os_remove_def return_def)
  qed
qed

lemma remove_each_result:
  "\<exists>fs'. remove_each ps w = (Inr (), w\<lparr>files := fs'\<rparr>)
         \<and> set fs' \<subseteq> set (files w)
         \<and> (\<forall>k. lookup (files w) k = None \<longrightarrow> lookup fs' k = None)
         \<and> (\<forall>q \<in> set ps. lookup (files w) q \<noteq> Some Dir \<longrightarrow> lookup fs' q = None)"
proof (induction ps arbitrary: w)
  case Nil
  show ?case
    by (intro exI [of _ "files w"]) (simp add: return_def)
next
  case (Cons p ps)
  obtain fs1 where
    r1: "try_except (os_remove p) (\<lambda>e. return ()) w = (Inr (), w\<lparr>files := fs1\<rparr>)"
    and c1: "fs1 = files w \<or> fs1 = delete p (files w)"
    and g1: "lookup (files w) p \<noteq> Some Dir \<longrightarrow> lookup fs1 p = None"
    using try_remove by blast
  from Cons.IH [of "w\<lparr>files := fs1\<rparr>"] obtain fs2 where
    r2: "remove_each ps (w\<lparr>files := fs1\<rparr>) = (Inr (), w\<lparr>files := fs2\<rparr>)"
    and s2: "set fs2 \<subseteq> set fs1"
    and n2: "\<forall>k. lookup fs1 k = None \<longrightarrow> lookup fs2 k = None"
    and g2: "\<forall>q \<in> set ps. lookup fs1 q \<noteq> Some Dir \<longrightarrow> lookup fs2 q = None"
    by auto
  have s1: "set fs1 \<subseteq> set (files w)"
    using c1 by (auto simp: delete_def)
  have k1: "lookup fs1 k = lookup (files w) k \<or> lookup fs1 k = None" for k
    using c1 by (auto simp: lookup_delete split: if_splits)
  have "remove_each (p # ps) w = (Inr (), w\<lparr>files := fs2\<rparr>)"
    using r1 r2 by (simp add: and_then_def)
  moreover have "set fs2 \<subseteq> set (files w)"
    using s1 s2 by blast
  moreover have "\<forall>k. lookup (files w) k = None \<longrightarrow> lookup fs2 k = None"
    using k1 n2 by metis
  moreover have "\<forall>q \<in> set (p # ps). lookup (files w) q \<noteq> Some Dir \<longrightarrow> lookup fs2 q = None"
  proof (intro ballI impI)
    fix q
    assume q: "q \<in> set (p # ps)" and d: "lookup (files w) q \<noteq> Some Dir"
    show "lookup fs2 q = None"
    proof (cases "q = p")
      case True
      with g1 d n2 show ?thesis by simp
    next
      case False
      with q have m: "q \<in> set ps" by simp
      from k1 [of q] d have "lookup fs1 q \<noteq> Some Dir" by auto
      with g2 m show ?thesis by blast
    qed
  qed
  ultimately show ?case
    by (intro exI [of _ fs2]) simp
qed

lemma os_walk_files_not_dir:
  "c \<in> set (os_walk_files depth fs root) \<Longrightarrow> \<not> isdir fs c"
proof (induction depth arbitrary: root)
  case 0
  then show ?case by simp
next
  case (Suc depth)
  from Suc.prems have
    "(c \<in> set (filter (\<lambda>c. \<not> entry_is_dir fs c)
         (filter (\<lambda>c. c \<noteq> as_directory root)
            (rev (remdups (rev (map (\<lambda>(q, n). child_path root q)
                                  (filter (\<lambda>(q, n). below root q) fs))))))))
     \<or> (\<exists>d. c \<in> set (os_walk_files depth fs d))"
    by (auto simp: Let_def)
  then show ?case
  proof
    assume "c \<in> set (filter (\<lambda>c. \<not> entry_is_dir fs c)
         (filter (\<lambda>c. c \<noteq> as_directory root)
            (rev (remdups (rev (map (\<lambda>(q, n). child_path root q)
                                  (filter (\<lambda>(q, n). below root q) fs)))))))"
    then have "\<not> entry_is_dir fs c" by simp
    then show ?thesis by (simp add: entry_is_dir_def)
  next
    assume "\<exists>d. c \<in> set (os_walk_files depth fs d)"
    then show ?thesis using Suc.IH by blast
  qed
qed

lemma get_all_files_not_dir:
  "c \<in> set (get_all_files fs directory) \<Longrightarrow> \<not> isdir fs c"
  by (cases "directory = []") (simp_all add: get_all_files_def os_walk_files_not_dir del: os_walk_files.simps)

lemma strip_no_slash:
  assumes "x \<noteq> []" and "last x \<noteq> CHR ''/''"
  shows "rev (dropWhile (\<lambda>c. c = CHR ''/'') (rev x)) = x"
  using assms by (cases x rule: rev_cases) auto

lemma resolve_absent: "lookup fs p = None \<Longrightarrow> resolve fs n p = None"
  by (cases n) simp_all

lemma final_path_absent: "lookup fs p = None \<Longrightarrow> final_path fs n p = p"
  by (cases n) simp_all

lemma not_dir_lookup:
  assumes "\<not> isdir fs x" and "x \<noteq> []" and "last x \<noteq> CHR ''/''"
  shows "lookup fs x \<noteq> Some Dir"
proof
  assume "lookup fs x = Some Dir"
  then have "resolve fs 41 x = Some Dir"
    by (simp add: numeral_eq_Suc)
  with assms show False
    by (simp add: isdir_def strip_no_slash)
qed

lemma absent_not_dir:
  assumes "lookup fs' x = None" and "x \<noteq> []" and "last x \<noteq> CHR ''/''"
    and "\<forall>(q, n) \<in> set fs'. \<not> below x q"
  shows "\<not> isdir fs' x"
proof -
  have "resolve fs' 41 x = None"
    using assms(1) by (rule resolve_absent)
  moreover have "\<not> list_ex (\<lambda>(q, n). below x q) fs'"
    using assms(4) by (auto simp: list_ex_iff)
  ultimately show ?thesis
    using assms(2,3) by (simp add: isdir_def strip_no_slash)
qed

lemma not_dir_nothing_below:
  assumes "\<not> isdir fs x" and "x \<noteq> []"
  shows "\<forall>(q, n) \<in> set fs. \<not> below x q"
  using assms by (auto simp: isdir_def list_ex_iff)

lemma set_store: "set (store p v fs) \<subseteq> insert (p, v) (set fs)"
  by (induction fs) (auto split: if_splits)

lemma as_directory_no_slash:
  assumes "x \<noteq> []" and "last x \<noteq> CHR ''/''"
  shows "as_directory x = x @ ''/''"
  using assms by (simp add: as_directory_def strip_no_slash)

lemma lock_not_below_marker:
  "\<not> below (file_path @ ''.fmd-aecs-processed'') (file_path @ ''.fmd-aecs-lock'')"
proof
  assume "below (file_path @ ''.fmd-aecs-processed'') (file_path @ ''.fmd-aecs-lock'')"
  then have "take (length (file_path @ ''.fmd-aecs-processed'' @ ''/''))
               (file_path @ ''.fmd-aecs-lock'') = file_path @ ''.fmd-aecs-processed'' @ ''/''"
    by (simp add: below_def startswith_def as_directory_no_slash)
  from arg_cong [OF this, of length] show False
    by simp
qed

text \<open>A worker that finds neither marker nor lock runs the locked section.\<close>

lemma and_then_get_files: "and_then get_files f w = f (files w) w"
  by (simp add: and_then_def get_files_def)

lemma worker_runs_locked_section:
  assumes m: "lookup (files w) (file_path @ ''.fmd-aecs-processed'') = None"
    and d: "\<not> isdir (files w) (file_path @ ''.fmd-aecs-processed'')"
    and l: "lookup (files w) (file_path @ ''.fmd-aecs-lock'') = None"
  shows "process_file_concurrently ev cfg aosp_path file_path partition_name target_out_path
           lunch_target pkl aosp_version w
         = try_finally
             (try_except
                (process_locked ev cfg aosp_path file_path partition_name target_out_path
                   lunch_target pkl aosp_version)
                (\<lambda>e. return (Some (exn_text e @ '':''), None, None)))
             (write_bytes (file_path @ ''.fmd-aecs-processed'') [])
             (w\<lparr>files := store (file_path @ ''.fmd-aecs-lock'') (File True False []) (files w)\<rparr>)"
proof -
  let ?marker = "file_path @ ''.fmd-aecs-processed''"
  let ?lock = "file_path @ ''.fmd-aecs-lock''"
  let ?w1 = "w\<lparr>files := store ?lock (File True False []) (files w)\<rparr>"
  have ne: "?marker \<noteq> []" "last ?marker \<noteq> CHR ''/''"
    by simp_all
  have e0: "\<not> exists_path (files w) ?marker"
    using m d by (simp add: exists_path_def isfile_def resolve_absent)
  have a: "acquire_lock ?lock w = (Inr (), ?w1)"
    using l by (simp add: acquire_lock_def write_bytes_def Let_def final_path_absent)
  have m1: "lookup (files ?w1) ?marker = None"
    using m by (simp add: lookup_store)
  have "\<forall>(q, n) \<in> set (files ?w1). \<not> below ?marker q"
  proof -
    have "\<forall>(q, n) \<in> set (files w). \<not> below ?marker q"
      using d ne(1) by (rule not_dir_nothing_below)
    moreover have "set (files ?w1) \<subseteq> insert (?lock, File True False []) (set (files w))"
      using set_store by simp
    ultimately show ?thesis
      using lock_not_below_marker by blast
  qed
  with m1 ne have d1: "\<not> isdir (files ?w1) ?marker"
    by (intro absent_not_dir)
  have e1: "\<not> exists_path (files ?w1) ?marker"
    using m1 d1 by (simp add: exists_path_def isfile_def resolve_absent)
  have inner: "and_then (acquire_lock ?lock) (\<lambda>u.
                 and_then get_files (\<lambda>fs.
                   if exists_path fs ?marker
                   then return (Some (''File already processed: '' @ file_path), None, None)
                   else process_locked ev cfg aosp_path file_path partition_name
                          target_out_path lunch_target pkl aosp_version)) w
               = process_locked ev cfg aosp_path file_path partition_name
                          target_out_path lunch_target pkl aosp_version ?w1"
    using a e1 by (simp add: and_then_def get_files_def)
  have "try_except
          (and_then (acquire_lock ?lock) (\<lambda>u.
             and_then get_files (\<lambda>fs.
               if exists_path fs ?marker
               then return (Some (''File already processed: '' @ file_path), None, None)
               else process_locked ev cfg aosp_path file_path partition_name
                      target_out_path lunch_target pkl aosp_version)))
          (\<lambda>e. return (Some (exn_text e @ '':''), None, None)) w
        = try_except
            (process_locked ev cfg aosp_path file_path partition_name
               target_out_path lunch_target pkl aosp_version)
            (\<lambda>e. return (Some (exn_text e @ '':''), None, None)) ?w1"
    by (simp only: try_except_def inner)
  then have "try_finally
          (try_except
             (and_then (acquire_lock ?lock) (\<lambda>u.
                and_then get_files (\<lambda>fs.
                  if exists_path fs ?marker
                  then return (Some (''File already processed: '' @ file_path), None, None)
                  else process_locked ev cfg aosp_path file_path partition_name
                         target_out_path lunch_target pkl aosp_version)))
             (\<lambda>e. return (Some (exn_text e @ '':''), None, None)))
          (write_bytes ?marker []) w
        = try_finally
            (try_except
               (process_locked ev cfg aosp_path file_path partition_name
                  target_out_path lunch_target pkl aosp_version)
               (\<lambda>e. return (Some (exn_text e @ '':''), None, None)))
            (write_bytes ?marker []) ?w1"
    by (simp only: try_finally_def)
  then show ?thesis
    unfolding process_file_concurrently_def Let_def and_then_get_files
    using e0 by (simp only: if_False)
qed

lemma basename_last:
  assumes "os_path_basename q \<noteq> []"
  shows "q \<noteq> [] \<and> last q \<noteq> CHR ''/''"
  using assms by (cases q rule: rev_cases) (auto simp: os_path_basename_def split: if_splits)

lemma endswith_nonempty:
  assumes "endswith s suf" and "suf \<noteq> []"
  shows "s \<noteq> []"
  using assms by (auto simp: endswith_def)

lemma cleanup_files_result:
  "\<exists>fs'. cleanup_files directory w = (Inr (), w\<lparr>files := fs'\<rparr>)
         \<and> set fs' \<subseteq> set (files w)
         \<and> (\<forall>k. lookup (files w) k = None \<longrightarrow> lookup fs' k = None)
         \<and> (\<forall>q \<in> set (get_all_files (files w) directory).
               (endswith (os_path_basename q) ''.fmd-aecs-lock''
                \<or> endswith (os_path_basename q) ''.fmd-aecs-processed'')
               \<longrightarrow> lookup fs' q = None)"
proof -
  let ?victims = "filter (\<lambda>file_path. endswith (os_path_basename file_path) ''.fmd-aecs-lock''
                               \<or> endswith (os_path_basename file_path) ''.fmd-aecs-processed'')
                    (get_all_files (files w) directory)"
  obtain fs' where r: "remove_each ?victims w = (Inr (), w\<lparr>files := fs'\<rparr>)"
    and s: "set fs' \<subseteq> set (files w)"
    and n: "\<forall>k. lookup (files w) k = None \<longrightarrow> lookup fs' k = None"
    and g: "\<forall>q \<in> set ?victims. lookup (files w) q \<noteq> Some Dir \<longrightarrow> lookup fs' q = None"
    using remove_each_result [of ?victims w] by blast
  have "lookup fs' q = None"
    if q: "q \<in> set (get_all_files (files w) directory)"
      and e: "endswith (os_path_basename q) ''.fmd-aecs-lock''
              \<or> endswith (os_path_basename q) ''.fmd-aecs-processed''" for q
  proof -
    have nd: "\<not> isdir (files w) q"
      using q by (rule get_all_files_not_dir)
    have "os_path_basename q \<noteq> []"
      using e endswith_nonempty [of "os_path_basename q"] by blast
    then have "q \<noteq> []" "last q \<noteq> CHR ''/''"
      using basename_last by blast+
    with nd have "lookup (files w) q \<noteq> Some Dir"
      by (intro not_dir_lookup)
    moreover have "q \<in> set ?victims"
      using q e by simp
    ultimately show ?thesis
      using g by blast
  qed
  with r s n show ?thesis
    by (intro exI [of _ fs']) (simp add: cleanup_files_def and_then_get_files)
qed

lemma gone_after_cleanup:
  assumes x: "x \<in> set (get_all_files fs directory) \<or> (lookup fs x = None \<and> \<not> isdir fs x)"
    and e: "endswith (os_path_basename x) ''.fmd-aecs-lock''
            \<or> endswith (os_path_basename x) ''.fmd-aecs-processed''"
    and s: "set fs' \<subseteq> set fs"
    and n: "\<forall>k. lookup fs k = None \<longrightarrow> lookup fs' k = None"
    and g: "\<forall>q \<in> set (get_all_files fs directory).
               (endswith (os_path_basename q) ''.fmd-aecs-lock''
                \<or> endswith (os_path_basename q) ''.fmd-aecs-processed'')
               \<longrightarrow> lookup fs' q = None"
  shows "lookup fs' x = None \<and> \<not> isdir fs' x"
proof -
  have "os_path_basename x \<noteq> []"
    using e endswith_nonempty [of "os_path_basename x"] by blast
  then have ne: "x \<noteq> []" "last x \<noteq> CHR ''/''"
    using basename_last by blast+
  have a: "lookup fs' x = None"
    using x e n g by blast
  have "\<not> isdir fs x"
    using x get_all_files_not_dir by blast
  then have "\<forall>(q, n) \<in> set fs. \<not> below x q"
    using ne(1) by (rule not_dir_nothing_below)
  with s have "\<forall>(q, n) \<in> set fs'. \<not> below x q"
    by blast
  with a ne have "\<not> isdir fs' x"
    by (intro absent_not_dir)
  with a show ?thesis ..
qed

text \<open>
  Claim C2, as the code has it. A partition run ends with the cleanup pass, which removes
  the lock and marker files its walk over the folder finds. Take a run whose scan and
  workers complete, and an artifact whose marker and lock are, when the workers are done,
  files of that walk or absent. Then the run returns the collected lists, no marker of
  the artifact exists afterwards (for \<open>os.path.exists\<close>), and a worker started on the
  artifact in the resulting state is not skipped: it takes the lock and runs the locked
  section, that is classification, the handlers and the search and injection, under the
  exception handler and the \<open>finally\<close> block that writes the marker anew. The markers
  of one completed run are therefore not there for the next.
\<close>

theorem markers_removed_after_partition:
  assumes scan: "scan_file_paths (files w) folder_path = Inr file_paths"
    and workers:
      "run_workers
         (\<lambda>file_path. process_file_concurrently ev cfg aosp_path file_path
             (os_path_basename folder_path) target_out_path lunch_target
             (Some pre_injector_package_list) aosp_version)
         file_paths ([], [], []) w = (Inr collected, w2)"
    and marker:
      "file_path @ ''.fmd-aecs-processed'' \<in> set (get_all_files (files w2) folder_path)
       \<or> (lookup (files w2) (file_path @ ''.fmd-aecs-processed'') = None
          \<and> \<not> isdir (files w2) (file_path @ ''.fmd-aecs-processed''))"
    and lock:
      "file_path @ ''.fmd-aecs-lock'' \<in> set (get_all_files (files w2) folder_path)
       \<or> (lookup (files w2) (file_path @ ''.fmd-aecs-lock'') = None
          \<and> \<not> isdir (files w2) (file_path @ ''.fmd-aecs-lock''))"
  shows "\<exists>w'. process_partition_files ev cfg aosp_path folder_path target_out_path lunch_target
                 pre_injector_package_list aosp_version w = (Inr collected, w')
              \<and> \<not> exists_path (files w') (file_path @ ''.fmd-aecs-processed'')
              \<and> process_file_concurrently ev cfg aosp_path file_path
                   (os_path_basename folder_path) target_out_path lunch_target
                   (Some pre_injector_package_list) aosp_version w'
                 = try_finally
                     (try_except
                        (process_locked ev cfg aosp_path file_path
                           (os_path_basename folder_path) target_out_path lunch_target
                           (Some pre_injector_package_list) aosp_version)
                        (\<lambda>e. return (Some (exn_text e @ '':''), None, None)))
                     (write_bytes (file_path @ ''.fmd-aecs-processed'') [])
                     (w'\<lparr>files := store (file_path @ ''.fmd-aecs-lock'') (File True False [])
                                     (files w')\<rparr>)"
proof -
  let ?marker = "file_path @ ''.fmd-aecs-processed''"
  let ?lock = "file_path @ ''.fmd-aecs-lock''"
  obtain fs' where c: "cleanup_files folder_path w2 = (Inr (), w2\<lparr>files := fs'\<rparr>)"
    and s: "set fs' \<subseteq> set (files w2)"
    and n: "\<forall>k. lookup (files w2) k = None \<longrightarrow> lookup fs' k = None"
    and g: "\<forall>q \<in> set (get_all_files (files w2) folder_path).
               (endswith (os_path_basename q) ''.fmd-aecs-lock''
                \<or> endswith (os_path_basename q) ''.fmd-aecs-processed'')
               \<longrightarrow> lookup fs' q = None"
    using cleanup_files_result [of folder_path w2] by blast
  let ?w' = "w2\<lparr>files := fs'\<rparr>"
  have run: "process_partition_files ev cfg aosp_path folder_path target_out_path lunch_target
               pre_injector_package_list aosp_version w = (Inr collected, ?w')"
    using scan workers c
    by (simp add: process_partition_files_def and_then_def get_files_def return_def)
  have "os_path_basename ?marker = os_path_basename file_path @ ''.fmd-aecs-processed''"
    by (rule basename_append_suffix) simp
  then have "endswith (os_path_basename ?marker) ''.fmd-aecs-processed''"
    by (simp add: endswith_append)
  with marker s n g have m: "lookup fs' ?marker = None \<and> \<not> isdir fs' ?marker"
    by (intro gone_after_cleanup [of _ "files w2" folder_path]) simp_all
  have "os_path_basename ?lock = os_path_basename file_path @ ''.fmd-aecs-lock''"
    by (rule basename_append_suffix) simp
  then have "endswith (os_path_basename ?lock) ''.fmd-aecs-lock''"
    by (simp add: endswith_append)
  with lock s n g have l: "lookup fs' ?lock = None \<and> \<not> isdir fs' ?lock"
    by (intro gone_after_cleanup [of _ "files w2" folder_path]) simp_all
  have e: "\<not> exists_path (files ?w') ?marker"
    using m by (simp add: exists_path_def isfile_def resolve_absent)
  have "process_file_concurrently ev cfg aosp_path file_path
          (os_path_basename folder_path) target_out_path lunch_target
          (Some pre_injector_package_list) aosp_version ?w'
        = try_finally
            (try_except
               (process_locked ev cfg aosp_path file_path
                  (os_path_basename folder_path) target_out_path lunch_target
                  (Some pre_injector_package_list) aosp_version)
               (\<lambda>e. return (Some (exn_text e @ '':''), None, None)))
            (write_bytes ?marker [])
            (?w'\<lparr>files := store ?lock (File True False []) (files ?w')\<rparr>)"
    using m l by (intro worker_runs_locked_section) simp_all
  with run e show ?thesis
    by (intro exI [of _ ?w'] conjI)
qed

theorem markers_removed_after_partition_witness:
  "scan_file_paths (files example_world) ''/data/ALL_FILES/vendor''
     = Inr [''/data/ALL_FILES/vendor/etc/foo.txt'']
   \<and> run_workers
         (\<lambda>file_path. process_file_concurrently idle_env empty_config ''/aosp/'' file_path
             (os_path_basename ''/data/ALL_FILES/vendor'') ''/out/''
             ''sdk_phone64_arm64-userdebug'' (Some []) (Some 13))
         [''/data/ALL_FILES/vendor/etc/foo.txt''] ([], [], []) example_world
       = (Inr ([], [],
               [(''/data/ALL_FILES/vendor/etc/foo.txt'', ''/out/vendor/etc/foo.txt'', ETC)]),
          example_world\<lparr>
            files := [(''/data/ALL_FILES/vendor/etc/foo.txt'', File True False ''new''),
                      (''/data/ALL_FILES/vendor/etc/foo.txt.fmd-aecs-lock'', File True False []),
                      (''/out/vendor/etc'', Dir),
                      (''/out/vendor/etc/foo.txt'', File True False ''new''),
                      (''/data/ALL_FILES/vendor/etc/foo.txt.fmd-aecs-processed'',
                       File True False [])],
            calls := [Direct_injection ''/data/ALL_FILES/vendor/etc/foo.txt''
                        ''/out/vendor/etc/foo.txt'']\<rparr>)
   \<and> get_all_files
         [(''/data/ALL_FILES/vendor/etc/foo.txt'', File True False ''new''),
          (''/data/ALL_FILES/vendor/etc/foo.txt.fmd-aecs-lock'', File True False []),
          (''/out/vendor/etc'', Dir),
          (''/out/vendor/etc/foo.txt'', File True False ''new''),
          (''/data/ALL_FILES/vendor/etc/foo.txt.fmd-aecs-processed'', File True False [])]
         ''/data/ALL_FILES/vendor''
       = [''/data/ALL_FILES/vendor/etc/foo.txt'',
          ''/data/ALL_FILES/vendor/etc/foo.txt.fmd-aecs-lock'',
          ''/data/ALL_FILES/vendor/etc/foo.txt.fmd-aecs-processed'']
   \<and> (\<exists>w'. process_partition_files idle_env empty_config ''/aosp/'' ''/data/ALL_FILES/vendor''
                ''/out/'' ''sdk_phone64_arm64-userdebug'' [] (Some 13) example_world
              = (Inr ([], [],
                      [(''/data/ALL_FILES/vendor/etc/foo.txt'', ''/out/vendor/etc/foo.txt'',
                        ETC)]), w')
            \<and> \<not> exists_path (files w')
                   (''/data/ALL_FILES/vendor/etc/foo.txt'' @ ''.fmd-aecs-processed'')
            \<and> process_file_concurrently idle_env empty_config ''/aosp/''
                 ''/data/ALL_FILES/vendor/etc/foo.txt''
                 (os_path_basename ''/data/ALL_FILES/vendor'') ''/out/''
                 ''sdk_phone64_arm64-userdebug'' (Some []) (Some 13) w'
               = try_finally
                   (try_except
                      (process_locked idle_env empty_config ''/aosp/''
                         ''/data/ALL_FILES/vendor/etc/foo.txt''
                         (os_path_basename ''/data/ALL_FILES/vendor'') ''/out/''
                         ''sdk_phone64_arm64-userdebug'' (Some []) (Some 13))
                      (\<lambda>e. return (Some (exn_text e @ '':''), None, None)))
                   (write_bytes
                      (''/data/ALL_FILES/vendor/etc/foo.txt'' @ ''.fmd-aecs-processed'') [])
                   (w'\<lparr>files := store
                                   (''/data/ALL_FILES/vendor/etc/foo.txt'' @ ''.fmd-aecs-lock'')
                                   (File True False []) (files w')\<rparr>))"
proof -
  let ?fs2 = "[(''/data/ALL_FILES/vendor/etc/foo.txt'', File True False ''new''),
          (''/data/ALL_FILES/vendor/etc/foo.txt.fmd-aecs-lock'', File True False []),
          (''/out/vendor/etc'', Dir),
          (''/out/vendor/etc/foo.txt'', File True False ''new''),
          (''/data/ALL_FILES/vendor/etc/foo.txt.fmd-aecs-processed'', File True False [])]"
  let ?w2 = "example_world\<lparr>
            files := ?fs2,
            calls := [Direct_injection ''/data/ALL_FILES/vendor/etc/foo.txt''
                        ''/out/vendor/etc/foo.txt'']\<rparr>"
  have scan: "scan_file_paths (files example_world) ''/data/ALL_FILES/vendor''
     = Inr [''/data/ALL_FILES/vendor/etc/foo.txt'']"
    by code_simp
  have workers: "run_workers
         (\<lambda>file_path. process_file_concurrently idle_env empty_config ''/aosp/'' file_path
             (os_path_basename ''/data/ALL_FILES/vendor'') ''/out/''
             ''sdk_phone64_arm64-userdebug'' (Some []) (Some 13))
         [''/data/ALL_FILES/vendor/etc/foo.txt''] ([], [], []) example_world
       = (Inr ([], [],
               [(''/data/ALL_FILES/vendor/etc/foo.txt'', ''/out/vendor/etc/foo.txt'', ETC)]),
          ?w2)"
    by code_simp
  have listing: "get_all_files ?fs2 ''/data/ALL_FILES/vendor''
       = [''/data/ALL_FILES/vendor/etc/foo.txt'',
          ''/data/ALL_FILES/vendor/etc/foo.txt.fmd-aecs-lock'',
          ''/data/ALL_FILES/vendor/etc/foo.txt.fmd-aecs-processed'']"
    by code_simp
  have marker: "''/data/ALL_FILES/vendor/etc/foo.txt'' @ ''.fmd-aecs-processed''
                  \<in> set (get_all_files (files ?w2) ''/data/ALL_FILES/vendor'')"
    using listing by simp
  have lock: "''/data/ALL_FILES/vendor/etc/foo.txt'' @ ''.fmd-aecs-lock''
                  \<in> set (get_all_files (files ?w2) ''/data/ALL_FILES/vendor'')"
    using listing by simp
  from markers_removed_after_partition [OF scan workers disjI1 [OF marker] disjI1 [OF lock]]
    scan workers listing
  show ?thesis
    by (intro conjI)
qed

text \<open>
  Claim C2 as stated fails: two runs over the same partition with nothing changed in
  between. The first run injects \<open>foo.txt\<close> directly. The second run finds no marker,
  does not skip the file, calls the direct injection again and reports an indirect-slot
  record and a direct-injection record.
\<close>

theorem second_run_counterexample:
  "(case process_partition_files idle_env empty_config ''/aosp/'' ''/data/ALL_FILES/vendor''
           ''/out/'' ''sdk_phone64_arm64-userdebug'' [] (Some 13) example_world of
      (first, w1) \<Rightarrow>
        first = Inr ([], [],
                     [(''/data/ALL_FILES/vendor/etc/foo.txt'', ''/out/vendor/etc/foo.txt'', ETC)])
        \<and> (case process_partition_files idle_env empty_config ''/aosp/''
                   ''/data/ALL_FILES/vendor'' ''/out/'' ''sdk_phone64_arm64-userdebug'' []
                   (Some 13) w1 of
             (second, w2) \<Rightarrow>
               second = Inr ([],
                 [(''Original file not found for indirect injection: ''
                     @ ''/data/ALL_FILES/vendor/etc/foo.txt'' @ '' | '' @ ''foo.txt'', None, ETC)],
                 [(''/data/ALL_FILES/vendor/etc/foo.txt'', ''/out/vendor/etc/foo.txt'', ETC)])
               \<and> calls w2 = calls w1 @ [Direct_injection ''/data/ALL_FILES/vendor/etc/foo.txt''
                                            ''/out/vendor/etc/foo.txt'']))"
  by code_simp


subsection \<open>Container transform\<close>

text \<open>
  Claim C7 at a merge whose signing stage fails. The packaging tool has written the
  output container, the signer reports failure, and \<open>merge_apex_files\<close> returns failure;
  \<open>handle_apex_modules\<close> nevertheless returns success, and the container on disk holds the
  unsigned merge result instead of the bytes of the backup. On the same failure
  \<open>repackage_apex_file\<close> returns failure and leaves the container as it was.
\<close>

theorem merge_reports_success_after_failed_signing:
  "fst (sign_apex_file sign_failure_env
          ''/data/ALL_FILES/system/apex/com.google.android.media.v2.apex'' example_apex_world)
     = Inr (False, ''Error signing APEX file'')
   \<and> fst (merge_apex_files sign_failure_env
             (empty_config\<lparr>APEX_DEFAULT_EMULATOR_PATHS_DICT := [(''media'', ''com.android.media'')]\<rparr>)
             ''/out/apex/com.android.media''
             ''/data/ALL_FILES/system/apex/com.google.android.media.apex''
             ''/data/ALL_FILES/system/apex/com.google.android.media.v2.apex'' ''/out/''
             example_apex_world)
       = Inr (False, ''apexer done'')
   \<and> (case handle_apex_modules sign_failure_env
             (empty_config\<lparr>APEX_DEFAULT_EMULATOR_PATHS_DICT := [(''media'', ''com.android.media'')]\<rparr>)
             ''/data/ALL_FILES/system/apex/com.google.android.media.apex'' ''/out/''
             example_apex_world of
        (r, w) \<Rightarrow> r = Inr (True, ''apexer done'')
          \<and> lookup (files w) ''/data/ALL_FILES/system/apex/com.google.android.media.apex''
              = Some (File True False ''merged, unsigned'')
          \<and> lookup (files w)
                ''/data/ALL_FILES/system/apex/com.google.android.media.apex.original_apex''
              = Some (File True False ''vendor container''))
   \<and> (case repackage_apex_file sign_failure_env
             ''/data/ALL_FILES/system/apex/com.google.android.media.apex'' example_apex_world of
        (r, w) \<Rightarrow> r = Inr (False, ''APEX signing failed: ''
                              @ ''/data/ALL_FILES/system/apex/com.google.android.media.v2.apex''
                              @ '' | Error signing APEX file'')
          \<and> lookup (files w) ''/data/ALL_FILES/system/apex/com.google.android.media.apex''
              = Some (File True False ''vendor container''))"
  by code_simp

end
